theory Spec2Isabelle
  imports Main "HOL-Library.Char_ord" "HOL-Library.List_Lexorder"
begin

section \<open>Python values\<close>

text \<open>
  The bot passes loosely typed JSON around: \<^verbatim>\<open>JSON = Dict[str, Any]\<close>. A Python dict keeps
  its insertion order, so a dict is an association list with distinct keys. Python's
  \<^verbatim>\<open>None\<close> is \<open>JNull\<close>. Floats do not occur in what the handlers build and are left out.
  Strings are \<open>string\<close>; the non-ASCII literals of the source (the emoji of the button labels)
  are written as their UTF-8 bytes, so that \<^verbatim>\<open>len\<close> and slicing agree with Python on ASCII
  text.
\<close>

datatype json =
    JNull
  | JBool bool
  | JInt int
  | JStr string
  | JList "json list"
  | JDict "(string \<times> json) list"

type_synonym pydict = "(string \<times> json) list"

text \<open>
  The exceptions the modelled code can meet, all subclasses of \<^verbatim>\<open>Exception\<close>.
  \<open>Raised msg\<close> is an exception thrown by a collaborator (the network, the JSON parser,
  a method of the bot object).
\<close>

datatype exc = ValueError | TypeError | AttributeError | KeyError | IndexError | Raised string

text \<open>Truthiness, as \<^verbatim>\<open>if x:\<close>, \<^verbatim>\<open>not x\<close> and \<^verbatim>\<open>x or y\<close> test it.\<close>

fun truthy :: "json \<Rightarrow> bool" where
  "truthy JNull = False"
| "truthy (JBool b) = b"
| "truthy (JInt i) = (i \<noteq> 0)"
| "truthy (JStr s) = (s \<noteq> [])"
| "truthy (JList xs) = (xs \<noteq> [])"
| "truthy (JDict d) = (d \<noteq> [])"

text \<open>\<^verbatim>\<open>k in d\<close>, \<^verbatim>\<open>d.get(k, default)\<close>, \<^verbatim>\<open>del d[k]\<close>, \<^verbatim>\<open>d.pop(k, None)\<close>,
  \<^verbatim>\<open>d[k] = v\<close> (an existing key keeps its place, a new one goes to the end) and
  \<^verbatim>\<open>d.update(e)\<close> on a dict.\<close>

definition dict_has :: "string \<Rightarrow> pydict \<Rightarrow> bool" where
  "dict_has k d = (map_of d k \<noteq> None)"

definition dict_get :: "pydict \<Rightarrow> string \<Rightarrow> json \<Rightarrow> json" where
  "dict_get d k dflt = (case map_of d k of None \<Rightarrow> dflt | Some v \<Rightarrow> v)"

definition dict_del :: "string \<Rightarrow> pydict \<Rightarrow> pydict" where
  "dict_del k d = filter (\<lambda>p. fst p \<noteq> k) d"

definition dict_pop :: "string \<Rightarrow> pydict \<Rightarrow> json \<times> pydict" where
  "dict_pop k d = (case map_of d k of None \<Rightarrow> (JNull, d) | Some v \<Rightarrow> (v, dict_del k d))"

fun dict_set :: "string \<Rightarrow> 'v \<Rightarrow> (string \<times> 'v) list \<Rightarrow> (string \<times> 'v) list" where
  "dict_set k v [] = [(k, v)]"
| "dict_set k v (p # ps) = (if fst p = k then (k, v) # ps else p # dict_set k v ps)"

definition dict_update :: "pydict \<Rightarrow> pydict \<Rightarrow> pydict" where
  "dict_update d e = foldl (\<lambda>acc p. dict_set (fst p) (snd p) acc) d e"

text \<open>\<^verbatim>\<open>try: body except Exception as e: handler\<close> on results.\<close>

definition try_except :: "exc + 'a \<Rightarrow> (exc \<Rightarrow> exc + 'a) \<Rightarrow> exc + 'a" where
  "try_except body handler = (case body of Inl e \<Rightarrow> handler e | Inr v \<Rightarrow> Inr v)"

definition bind_exc :: "exc + 'a \<Rightarrow> ('a \<Rightarrow> exc + 'b) \<Rightarrow> exc + 'b" where
  "bind_exc m f = (case m of Inl e \<Rightarrow> Inl e | Inr v \<Rightarrow> f v)"

section \<open>Strings and integers\<close>

text \<open>\<^verbatim>\<open>str(n)\<close> of an integer: decimal digits, a minus sign for a negative one.\<close>

definition digit_char :: "nat \<Rightarrow> char" where
  "digit_char d = char_of (48 + d)"

function digits_of :: "nat \<Rightarrow> string" where
  "digits_of n = (if n < 10 then [digit_char n] else digits_of (n div 10) @ [digit_char (n mod 10)])"
  by pat_completeness auto
termination
  by (relation "measure id") auto

definition str_int :: "int \<Rightarrow> string" where
  "str_int i = (if i < 0 then CHR ''-'' # digits_of (nat (- i)) else digits_of (nat i))"

text \<open>\<^verbatim>\<open>s.split(sep)\<close> with a one-character separator: never empty.\<close>

fun split_on :: "char \<Rightarrow> string \<Rightarrow> string list" where
  "split_on sep [] = [[]]"
| "split_on sep (c # cs) =
     (if c = sep then [] # split_on sep cs
      else (case split_on sep cs of f # fs \<Rightarrow> (c # f) # fs | [] \<Rightarrow> [[c]]))"

text \<open>\<^verbatim>\<open>s.upper()\<close> and \<^verbatim>\<open>s.capitalize()\<close>, on ASCII letters.\<close>

definition upper_char :: "char \<Rightarrow> char" where
  "upper_char c = (if CHR ''a'' \<le> c \<and> c \<le> CHR ''z'' then char_of (of_char c - (32::nat)) else c)"

definition lower_char :: "char \<Rightarrow> char" where
  "lower_char c = (if CHR ''A'' \<le> c \<and> c \<le> CHR ''Z'' then char_of (of_char c + (32::nat)) else c)"

definition upper :: "string \<Rightarrow> string" where
  "upper s = map upper_char s"

definition capitalize :: "string \<Rightarrow> string" where
  "capitalize s = (case s of [] \<Rightarrow> [] | c # cs \<Rightarrow> upper_char c # map lower_char cs)"

section \<open>The runtime the code runs on\<close>

text \<open>
  What the code takes from outside the repository is a parameter of the model:
  the Workers \<^verbatim>\<open>fetch\<close> (it raises, or returns a response whose \<^verbatim>\<open>json()\<close> in turn raises or
  returns the parsed body), \<^verbatim>\<open>json.loads\<close>, \<^verbatim>\<open>json.dumps\<close>, \<^verbatim>\<open>str(e)\<close> of an exception,
  the \<^verbatim>\<open>repr\<close> of a list or dict (what \<^verbatim>\<open>str\<close> and an f-string print for it), the hex
  token of \<^verbatim>\<open>secrets.token_hex(16)\<close>, and \<^verbatim>\<open>int(s)\<close> of a string, which returns the
  integer or raises. Python's \<^verbatim>\<open>int\<close> reads the decimal digits and the white space of every
  script and refuses a text with more digits than the interpreter allows; which strings it
  accepts is left to the runtime, and the statements below speak of a string that it
  accepts or refuses.
\<close>

record request =
  req_url :: string
  req_verb :: string
  req_content_type :: string
  req_body :: string

record runtime =
  fetch :: "request \<Rightarrow> exc + (exc + json)"
  loads :: "string \<Rightarrow> exc + json"
  dumps :: "json \<Rightarrow> string"
  str_exc :: "exc \<Rightarrow> string"
  repr_of :: "json \<Rightarrow> string"
  token_hex :: string
  int_of :: "string \<Rightarrow> exc + int"

text \<open>\<^verbatim>\<open>str(v)\<close>, which is also how an f-string formats \<^verbatim>\<open>{v}\<close>.\<close>

definition py_str :: "runtime \<Rightarrow> json \<Rightarrow> string" where
  "py_str rt v =
     (case v of
        JStr s \<Rightarrow> s
      | JInt i \<Rightarrow> str_int i
      | JBool b \<Rightarrow> (if b then ''True'' else ''False'')
      | JNull \<Rightarrow> ''None''
      | _ \<Rightarrow> repr_of rt v)"

section \<open>telegram\_bot.py: the protocol client\<close>

record telegram_bot =
  token :: string

definition api_url :: "telegram_bot \<Rightarrow> string" where
  "api_url self = ''https://api.telegram.org/bot'' @ token self"

text \<open>\<^verbatim>\<open>TelegramBot._api_call\<close>: one POST to \<^verbatim>\<open>f"{self.api_url}/{method}"\<close>, the parsed body
  returned; whatever the \<^verbatim>\<open>try\<close> block raises becomes the dict
  \<^verbatim>\<open>{"ok": False, "description": str(e)}\<close>.\<close>

definition post_request :: "telegram_bot \<Rightarrow> string \<Rightarrow> string \<Rightarrow> string \<Rightarrow> request" where
  "post_request self meth content_type body =
     \<lparr>req_url = api_url self @ ''/'' @ meth, req_verb = ''POST'',
      req_content_type = content_type, req_body = body\<rparr>"

definition error_result :: "runtime \<Rightarrow> exc \<Rightarrow> json" where
  "error_result rt e = JDict [(''ok'', JBool False), (''description'', JStr (str_exc rt e))]"

definition api_call :: "runtime \<Rightarrow> telegram_bot \<Rightarrow> string \<Rightarrow> string \<Rightarrow> string \<Rightarrow> exc + json" where
  "api_call rt self meth content_type body =
     try_except
       (bind_exc (fetch rt (post_request self meth content_type body)) (\<lambda>resp. resp))
       (\<lambda>e. Inr (error_result rt e))"

text \<open>\<^verbatim>\<open>TelegramBot._post_json\<close>.\<close>

definition post_json :: "runtime \<Rightarrow> telegram_bot \<Rightarrow> string \<Rightarrow> json \<Rightarrow> exc + json" where
  "post_json rt self meth payload = api_call rt self meth ''application/json'' (dumps rt payload)"

text \<open>
  \<^verbatim>\<open>TelegramBot._fix_reply_markup\<close>. One button: \<^verbatim>\<open>btn_copy = dict(btn)\<close>,
  \<^verbatim>\<open>cb = btn_copy.pop("callbackData", None) or btn_copy.pop("callback", None)\<close> (the second
  pop only runs when the first value is falsy), and \<^verbatim>\<open>callback_data\<close> is set when
  \<^verbatim>\<open>cb is not None\<close>.
\<close>

definition fix_button :: "pydict \<Rightarrow> pydict" where
  "fix_button btn =
     (let (v1, copy1) = dict_pop ''callbackData'' btn;
          (cb, copy2) = (if truthy v1 then (v1, copy1) else dict_pop ''callback'' copy1)
      in if cb \<noteq> JNull then dict_set ''callback_data'' cb copy2 else copy2)"

text \<open>
  The method is annotated for \<^verbatim>\<open>None\<close> or a dict holding Telegram's array of arrays of
  button objects, and checks none of it: it tests, iterates and copies whatever it is
  given. So the builtins it uses are modelled on every value. \<^verbatim>\<open>for x in v\<close>: a list
  gives its items, a string its characters, a dict its keys, and anything else raises
  \<^verbatim>\<open>TypeError\<close>. A character of a string is one UTF-8 sequence of its bytes, a byte with
  the continuation bytes (\<^verbatim>\<open>10xxxxxx\<close>) that follow it.
\<close>

definition is_continuation :: "char \<Rightarrow> bool" where
  "is_continuation c = (digit7 c \<and> \<not> digit6 c)"

fun utf8_chars :: "string \<Rightarrow> string list" where
  "utf8_chars [] = []"
| "utf8_chars (c # cs) =
     (case utf8_chars cs of
        (d # ds) # rest \<Rightarrow>
          if is_continuation d then (c # d # ds) # rest else [c] # (d # ds) # rest
      | _ \<Rightarrow> [[c]])"

definition py_iter :: "json \<Rightarrow> exc + json list" where
  "py_iter v =
     (case v of
        JList xs \<Rightarrow> Inr xs
      | JStr s \<Rightarrow> Inr (map JStr (utf8_chars s))
      | JDict d \<Rightarrow> Inr (map (\<lambda>p. JStr (fst p)) d)
      | _ \<Rightarrow> Inl TypeError)"

text \<open>\<^verbatim>\<open>k in v\<close> for a string \<^verbatim>\<open>k\<close>: a key of a dict, an item of a list, a substring of a
  string; \<^verbatim>\<open>TypeError\<close> on anything else.\<close>

fun has_infix :: "string \<Rightarrow> string \<Rightarrow> bool" where
  "has_infix needle [] = (needle = [])"
| "has_infix needle (c # cs) = (take (length needle) (c # cs) = needle \<or> has_infix needle cs)"

definition py_in :: "string \<Rightarrow> json \<Rightarrow> exc + bool" where
  "py_in k v =
     (case v of
        JDict d \<Rightarrow> Inr (dict_has k d)
      | JList xs \<Rightarrow> Inr (JStr k \<in> set xs)
      | JStr s \<Rightarrow> Inr (has_infix k s)
      | _ \<Rightarrow> Inl TypeError)"

text \<open>
  \<^verbatim>\<open>dict(x)\<close> is a copy of a dict, and of anything else the dict of the pairs that \<^verbatim>\<open>x\<close>
  yields. Each item is read in turn: one that cannot be iterated raises \<^verbatim>\<open>TypeError\<close>,
  one that does not yield two values raises \<^verbatim>\<open>ValueError\<close>, and a first value that is a
  list or a dict cannot be a key (\<^verbatim>\<open>TypeError\<close>). A later pair with the same key replaces
  the value of the earlier one.

  A key read from a pair may be \<^verbatim>\<open>None\<close>, a bool or an integer. A dict with such a key is
  not a value of the type \<open>json\<close>, whose dicts have strings as keys. The result of a step
  that returns is therefore optional: \<open>Some (Inl e)\<close> when it raises \<open>e\<close>, \<open>Some (Inr v)\<close>
  when it returns \<open>v\<close>, and \<open>None\<close> when it returns a value that holds such a dict.
\<close>

definition hashable :: "json \<Rightarrow> bool" where
  "hashable k = (case k of JList xs \<Rightarrow> False | JDict d \<Rightarrow> False | _ \<Rightarrow> True)"

definition pair_of :: "json \<Rightarrow> exc + json \<times> json" where
  "pair_of item =
     (case py_iter item of
        Inl e \<Rightarrow> Inl TypeError
      | Inr [k, v] \<Rightarrow> if hashable k then Inr (k, v) else Inl TypeError
      | Inr other \<Rightarrow> Inl ValueError)"

fun pairs_of :: "json list \<Rightarrow> exc + (json \<times> json) list" where
  "pairs_of [] = Inr []"
| "pairs_of (item # items) =
     (case pair_of item of
        Inl e \<Rightarrow> Inl e
      | Inr p \<Rightarrow> (case pairs_of items of Inl e \<Rightarrow> Inl e | Inr ps \<Rightarrow> Inr (p # ps)))"

definition str_keys :: "(json \<times> json) list \<Rightarrow> pydict option" where
  "str_keys ps =
     (if list_all (\<lambda>p. case fst p of JStr k \<Rightarrow> True | _ \<Rightarrow> False) ps
      then Some (map (\<lambda>p. (case fst p of JStr k \<Rightarrow> k | _ \<Rightarrow> [], snd p)) ps)
      else None)"

definition dict_of :: "json \<Rightarrow> (exc + pydict) option" where
  "dict_of x =
     (case x of
        JDict d \<Rightarrow> Some (Inr d)
      | _ \<Rightarrow>
          (case bind_exc (py_iter x) pairs_of of
             Inl e \<Rightarrow> Some (Inl e)
           | Inr ps \<Rightarrow> map_option (\<lambda>d. Inr (dict_update [] d)) (str_keys ps)))"

text \<open>
  A \<^verbatim>\<open>for\<close> loop that appends the result of its body to a list. The first item on which
  the body raises ends it; an item on which the body returns a value outside \<open>json\<close> does
  not, so that a later item may still raise.
\<close>

fun for_each :: "('a \<Rightarrow> (exc + 'b) option) \<Rightarrow> 'a list \<Rightarrow> (exc + 'b list) option" where
  "for_each body [] = Some (Inr [])"
| "for_each body (x # xs) =
     (case body x of
        Some (Inl e) \<Rightarrow> Some (Inl e)
      | r \<Rightarrow>
          (case for_each body xs of
             Some (Inl e) \<Rightarrow> Some (Inl e)
           | rs \<Rightarrow>
               (case (r, rs) of
                  (Some (Inr y), Some (Inr ys)) \<Rightarrow> Some (Inr (y # ys))
                | _ \<Rightarrow> None)))"

definition and_then :: "(exc + 'a) option \<Rightarrow> ('a \<Rightarrow> exc + 'b) \<Rightarrow> (exc + 'b) option" where
  "and_then m f = map_option (\<lambda>r. bind_exc r f) m"

text \<open>The two loops: \<^verbatim>\<open>for btn in row\<close> with its body, on the buttons a row yields, and
  \<^verbatim>\<open>for row in rm["inline_keyboard"]\<close>, on the rows the keyboard yields.\<close>

definition fix_row :: "json list \<Rightarrow> (exc + json list) option" where
  "fix_row btns =
     for_each (\<lambda>btn. and_then (dict_of btn) (\<lambda>btn_copy. Inr (JDict (fix_button btn_copy)))) btns"

definition fix_rows :: "json list \<Rightarrow> (exc + json list) option" where
  "fix_rows rows =
     for_each (\<lambda>row. case py_iter row of
                        Inl e \<Rightarrow> Some (Inl e)
                      | Inr btns \<Rightarrow> and_then (fix_row btns) (\<lambda>fixed_row. Inr (JList fixed_row)))
       rows"

text \<open>
  The method: \<^verbatim>\<open>if not reply_markup or "inline_keyboard" not in reply_markup: return
  reply_markup\<close>, then \<^verbatim>\<open>rm = dict(reply_markup)\<close>, the loops over
  \<^verbatim>\<open>rm["inline_keyboard"]\<close>, and \<^verbatim>\<open>rm["inline_keyboard"] = fixed_kb\<close>.
\<close>

definition fix_reply_markup :: "json \<Rightarrow> (exc + json) option" where
  "fix_reply_markup reply_markup =
     (if \<not> truthy reply_markup then Some (Inr reply_markup)
      else
        (case py_in ''inline_keyboard'' reply_markup of
           Inl e \<Rightarrow> Some (Inl e)
         | Inr False \<Rightarrow> Some (Inr reply_markup)
         | Inr True \<Rightarrow>
             (case dict_of reply_markup of
                None \<Rightarrow> None
              | Some (Inl e) \<Rightarrow> Some (Inl e)
              | Some (Inr rm) \<Rightarrow>
                  (case map_of rm ''inline_keyboard'' of
                     None \<Rightarrow> Some (Inl KeyError)
                   | Some kb \<Rightarrow>
                       (case py_iter kb of
                          Inl e \<Rightarrow> Some (Inl e)
                        | Inr rows \<Rightarrow>
                            and_then (fix_rows rows)
                              (\<lambda>fixed_kb.
                                 Inr (JDict (dict_set ''inline_keyboard'' (JList fixed_kb) rm))))))))"

text \<open>\<^verbatim>\<open>TelegramBot._build_multipart\<close>; the field values are strings already, and
  \<^verbatim>\<open>encode('utf-8')\<close> is the identity on the model's byte strings.\<close>

definition crlf :: string where
  "crlf = [CHR 0x0D, CHR 0x0A]"

definition dquote :: string where
  "dquote = [CHR 0x22]"

definition build_multipart ::
  "runtime \<Rightarrow> (string \<times> string) list \<Rightarrow> string \<Rightarrow> string \<Rightarrow> string \<Rightarrow> string \<Rightarrow> string \<times> string" where
  "build_multipart rt flds file_field_name filename file_bytes content_type =
     (let boundary = ''----BotBoundary'' @ token_hex rt;
          field_parts = concat (map (\<lambda>(name, val).
              [''--'' @ boundary @ crlf,
               ''Content-Disposition: form-data; name='' @ dquote @ name @ dquote @ crlf @ crlf,
               val,
               crlf]) flds);
          file_parts =
              [''--'' @ boundary @ crlf,
               ''Content-Disposition: form-data; name='' @ dquote @ file_field_name @ dquote
                  @ ''; filename='' @ dquote @ filename @ dquote @ crlf,
               ''Content-Type: '' @ content_type @ crlf @ crlf,
               file_bytes,
               crlf,
               ''--'' @ boundary @ ''--'' @ crlf]
      in (concat (field_parts @ file_parts), ''multipart/form-data; boundary='' @ boundary))"

text \<open>The shared tail of \<^verbatim>\<open>send_message\<close>, \<^verbatim>\<open>edit_message_text\<close> and the JSON mode of
  \<^verbatim>\<open>_send_file\<close>: \<^verbatim>\<open>if options: opts = dict(options); if "reply_markup" in opts:
  payload["reply_markup"] = self._fix_reply_markup(opts.pop("reply_markup")); payload.update(opts)\<close>.
  The options are a dict. When the normalized markup is outside \<open>json\<close>, so are the payload
  and the request made with it, and the result of the sender is \<open>None\<close>.\<close>

definition merge_options :: "pydict \<Rightarrow> pydict option \<Rightarrow> (exc + pydict) option" where
  "merge_options payload options =
     (case options of
        None \<Rightarrow> Some (Inr payload)
      | Some opts \<Rightarrow>
          if opts = [] then Some (Inr payload)
          else if dict_has ''reply_markup'' opts then
            (case dict_pop ''reply_markup'' opts of (markup, rest) \<Rightarrow>
               and_then (fix_reply_markup markup)
                 (\<lambda>fixed. Inr (dict_update (dict_set ''reply_markup'' fixed payload) rest)))
          else Some (Inr (dict_update payload opts)))"

text \<open>\<^verbatim>\<open>file_data: Union[str, bytes]\<close>: raw bytes, or a URL or file id.\<close>

datatype file_data = Raw_bytes string | File_ref string

definition is_dict :: "json \<Rightarrow> bool" where
  "is_dict v = (case v of JDict _ \<Rightarrow> True | _ \<Rightarrow> False)"

text \<open>The loop of the multipart mode over \<^verbatim>\<open>opts.items()\<close>.\<close>

fun multipart_fields :: "runtime \<Rightarrow> (string \<times> string) list \<Rightarrow> pydict \<Rightarrow> (string \<times> string) list" where
  "multipart_fields rt flds [] = flds"
| "multipart_fields rt flds ((k, v) # opts) =
     (if k = ''filename'' \<or> k = ''content_type'' then multipart_fields rt flds opts
      else multipart_fields rt
             (dict_set k (if is_dict v then dumps rt v else py_str rt v) flds) opts)"

text \<open>\<^verbatim>\<open>TelegramBot._send_file\<close>.\<close>

definition send_file ::
  "runtime \<Rightarrow> telegram_bot \<Rightarrow> string \<Rightarrow> string \<Rightarrow> json \<Rightarrow> file_data \<Rightarrow> string \<Rightarrow> string
     \<Rightarrow> pydict option \<Rightarrow> (exc + json) option" where
  "send_file rt self meth file_field chat_id data default_filename default_mimetype options =
     (case data of
        Raw_bytes file_bytes \<Rightarrow>
          (let opts = (case options of None \<Rightarrow> [] | Some d \<Rightarrow> d);
               flds = multipart_fields rt [(''chat_id'', py_str rt chat_id)] opts;
               filename = dict_get opts ''filename'' (JStr default_filename);
               content_type = dict_get opts ''content_type'' (JStr default_mimetype);
               (body, ctype) = build_multipart rt flds file_field (py_str rt filename) file_bytes
                                 (py_str rt content_type)
           in Some (api_call rt self meth ctype body))
      | File_ref ref \<Rightarrow>
          and_then (merge_options (dict_set file_field (JStr ref) [(''chat_id'', chat_id)]) options)
            (\<lambda>payload. post_json rt self meth (JDict payload)))"

text \<open>\<^verbatim>\<open>send_message\<close>, \<^verbatim>\<open>edit_message_text\<close>, \<^verbatim>\<open>send_photo\<close>, \<^verbatim>\<open>send_poll\<close> and
  \<^verbatim>\<open>answer_callback_query\<close>.\<close>

definition send_message ::
  "runtime \<Rightarrow> telegram_bot \<Rightarrow> json \<Rightarrow> string \<Rightarrow> pydict option \<Rightarrow> (exc + json) option" where
  "send_message rt self chat_id txt options =
     and_then (merge_options [(''chat_id'', chat_id), (''text'', JStr txt)] options)
       (\<lambda>payload. post_json rt self ''sendMessage'' (JDict payload))"

definition edit_message_text ::
  "runtime \<Rightarrow> telegram_bot \<Rightarrow> string \<Rightarrow> pydict option \<Rightarrow> (exc + json) option" where
  "edit_message_text rt self txt options =
     and_then (merge_options [(''text'', JStr txt)] options)
       (\<lambda>payload. post_json rt self ''editMessageText'' (JDict payload))"

definition send_photo ::
  "runtime \<Rightarrow> telegram_bot \<Rightarrow> json \<Rightarrow> file_data \<Rightarrow> pydict option \<Rightarrow> (exc + json) option" where
  "send_photo rt self chat_id photo options =
     send_file rt self ''sendPhoto'' ''photo'' chat_id photo ''photo.jpg'' ''image/jpeg'' options"

definition send_poll ::
  "runtime \<Rightarrow> telegram_bot \<Rightarrow> json \<Rightarrow> string \<Rightarrow> string list \<Rightarrow> pydict option \<Rightarrow> exc + json" where
  "send_poll rt self chat_id question poll_options options =
     (let payload = [(''chat_id'', chat_id), (''question'', JStr question),
                     (''options'', JList (map JStr poll_options))];
          payload' = (case options of
                        None \<Rightarrow> payload
                      | Some opts \<Rightarrow> if opts = [] then payload else dict_update payload opts)
      in post_json rt self ''sendPoll'' (JDict payload'))"

definition answer_callback_query ::
  "runtime \<Rightarrow> telegram_bot \<Rightarrow> string \<Rightarrow> pydict option \<Rightarrow> exc + json" where
  "answer_callback_query rt self callback_query_id options =
     post_json rt self ''answerCallbackQuery''
       (JDict (dict_update [(''callback_query_id'', JStr callback_query_id)]
                 (case options of None \<Rightarrow> [] | Some opts \<Rightarrow> opts)))"

section \<open>telegram\_bot.py: the dispatcher\<close>

text \<open>
  A handler is called with the bot and the payload; it acts on the world \<open>'s\<close> and either
  returns (\<open>None\<close>) or raises. \<^verbatim>\<open>Dispatcher()\<close> starts with two empty lists, and the
  decorators \<^verbatim>\<open>on_message\<close> and \<^verbatim>\<open>on_callback_query\<close> append to them.
\<close>

type_synonym ('b, 's) bot_handler = "'b \<Rightarrow> json \<Rightarrow> 's \<Rightarrow> exc option \<times> 's"

record ('b, 's) dispatcher =
  message_handlers :: "('b, 's) bot_handler list"
  callback_query_handlers :: "('b, 's) bot_handler list"

definition Dispatcher :: "('b, 's) dispatcher" where
  "Dispatcher = \<lparr>message_handlers = [], callback_query_handlers = []\<rparr>"

definition on_message :: "('b, 's) dispatcher \<Rightarrow> ('b, 's) bot_handler \<Rightarrow> ('b, 's) dispatcher" where
  "on_message d func = d\<lparr>message_handlers := message_handlers d @ [func]\<rparr>"

definition on_callback_query :: "('b, 's) dispatcher \<Rightarrow> ('b, 's) bot_handler \<Rightarrow> ('b, 's) dispatcher" where
  "on_callback_query d func = d\<lparr>callback_query_handlers := callback_query_handlers d @ [func]\<rparr>"

text \<open>\<^verbatim>\<open>for handler in handlers: await handler(bot, payload)\<close>: an exception ends the loop.\<close>

fun run_handlers :: "('b, 's) bot_handler list \<Rightarrow> 'b \<Rightarrow> json \<Rightarrow> 's \<Rightarrow> exc option \<times> 's" where
  "run_handlers [] tbot payload s = (None, s)"
| "run_handlers (handler # handlers) tbot payload s =
     (case handler tbot payload s of
        (Some e, s') \<Rightarrow> (Some e, s')
      | (None, s') \<Rightarrow> run_handlers handlers tbot payload s')"

text \<open>The two tests of \<^verbatim>\<open>route_update\<close>: \<^verbatim>\<open>'message' in update and update['message']\<close>
  and the same for \<^verbatim>\<open>callback_query\<close>.\<close>

definition carries :: "string \<Rightarrow> pydict \<Rightarrow> bool" where
  "carries k update = (dict_has k update \<and> truthy (dict_get update k JNull))"

definition route_update :: "('b, 's) dispatcher \<Rightarrow> 'b \<Rightarrow> pydict \<Rightarrow> 's \<Rightarrow> exc option \<times> 's" where
  "route_update self tbot update s =
     (if carries ''message'' update then
        run_handlers (message_handlers self) tbot (dict_get update ''message'' JNull) s
      else if carries ''callback_query'' update then
        run_handlers (callback_query_handlers self) tbot (dict_get update ''callback_query'' JNull) s
      else (None, s))"

section \<open>entry.py: the callback handlers\<close>

text \<open>
  A callback event (\<^verbatim>\<open>CallbackQuery\<close>) as the handlers read it: \<^verbatim>\<open>cb['id']\<close>,
  \<^verbatim>\<open>cb["message"]["chat"]["id"]\<close>, \<^verbatim>\<open>cb["message"]["message_id"]\<close> and the optional
  \<^verbatim>\<open>data\<close>. The bot attaches its keyboards to messages it sends to a chat, so the event
  of a button press carries its id and that message. The cache \<^verbatim>\<open>env.BOT_STATE\<close> is read
  only, through \<^verbatim>\<open>get\<close>, which gives the cached string or \<^verbatim>\<open>None\<close>.
\<close>

record callback_query =
  cb_id :: string
  cb_chat_id :: int
  cb_message_id :: int
  cb_data :: "string option"

record env =
  BOT_STATE :: "string \<Rightarrow> string option"

text \<open>
  What a handler does is the list of the calls it makes on the bot, in order.
  \<^verbatim>\<open>answer_callback_query\<close> is the method of telegram\_bot.py above: it returns a result,
  which the handlers ignore, and does not raise. \<^verbatim>\<open>edit_message_media\<close> and
  \<^verbatim>\<open>edit_message_caption\<close> are called by entry.py and not defined by telegram\_bot.py, so
  what such a call does is a parameter of the handlers, as the bot is in the source:
  \<open>None\<close> when the call returns, \<open>Some e\<close> when it raises. The list holds every call
  the handler asks for, also one that raises.
\<close>

datatype bot_call =
    Answer_callback_query string "pydict option"
  | Edit_message_media json json
  | Edit_message_caption string json

record bot_object =
  edit_message_media :: "json \<Rightarrow> json \<Rightarrow> exc option"
  edit_message_caption :: "string \<Rightarrow> json \<Rightarrow> exc option"

text \<open>On an instance of the class \<^verbatim>\<open>TelegramBot\<close> as telegram\_bot.py has it, looking either
  method up raises \<^verbatim>\<open>AttributeError\<close>, so that no request leaves the bot.\<close>

definition TelegramBot_as_is :: bot_object where
  "TelegramBot_as_is =
     \<lparr>edit_message_media = (\<lambda>media options. Some AttributeError),
      edit_message_caption = (\<lambda>caption options. Some AttributeError)\<rparr>"

text \<open>\<^verbatim>\<open>x.get(k, default)\<close>, \<^verbatim>\<open>x[k]\<close>, \<^verbatim>\<open>x.keys()\<close>, \<^verbatim>\<open>len(x)\<close>, \<^verbatim>\<open>x[i]\<close> and
  \<^verbatim>\<open>x[:n]\<close> on a value that may be anything.\<close>

definition py_get :: "json \<Rightarrow> string \<Rightarrow> json \<Rightarrow> exc + json" where
  "py_get x k dflt = (case x of JDict d \<Rightarrow> Inr (dict_get d k dflt) | _ \<Rightarrow> Inl AttributeError)"

definition py_item :: "json \<Rightarrow> string \<Rightarrow> exc + json" where
  "py_item x k =
     (case x of
        JDict d \<Rightarrow> (case map_of d k of None \<Rightarrow> Inl KeyError | Some v \<Rightarrow> Inr v)
      | _ \<Rightarrow> Inl TypeError)"

definition py_keys :: "json \<Rightarrow> exc + string list" where
  "py_keys x = (case x of JDict d \<Rightarrow> Inr (map fst d) | _ \<Rightarrow> Inl AttributeError)"

definition py_len :: "json \<Rightarrow> exc + int" where
  "py_len x =
     (case x of
        JList xs \<Rightarrow> Inr (int (length xs))
      | JStr s \<Rightarrow> Inr (int (length s))
      | JDict d \<Rightarrow> Inr (int (length d))
      | _ \<Rightarrow> Inl TypeError)"

definition seq_index :: "'a list \<Rightarrow> int \<Rightarrow> exc + 'a" where
  "seq_index xs i =
     (let pos = (if i < 0 then i + int (length xs) else i)
      in if pos < 0 \<or> int (length xs) \<le> pos then Inl IndexError else Inr (xs ! nat pos))"

definition py_index :: "json \<Rightarrow> int \<Rightarrow> exc + json" where
  "py_index x i =
     (case x of
        JList xs \<Rightarrow> seq_index xs i
      | JStr s \<Rightarrow> bind_exc (seq_index s i) (\<lambda>c. Inr (JStr [c]))
      | JDict d \<Rightarrow> Inl KeyError
      | _ \<Rightarrow> Inl TypeError)"

definition py_prefix :: "nat \<Rightarrow> json \<Rightarrow> exc + json" where
  "py_prefix n x =
     (case x of
        JStr s \<Rightarrow> Inr (JStr (take n s))
      | JList xs \<Rightarrow> Inr (JList (take n xs))
      | _ \<Rightarrow> Inl TypeError)"

text \<open>The labels of the source that are not ASCII, as UTF-8.\<close>

definition left_arrow :: string where
  "left_arrow = [CHR 0xE2, CHR 0xAC, CHR 0x85, CHR 0xEF, CHR 0xB8, CHR 0x8F]"

definition right_arrow :: string where
  "right_arrow = [CHR 0xE2, CHR 0x9E, CHR 0xA1, CHR 0xEF, CHR 0xB8, CHR 0x8F]"

definition guillemet :: string where
  "guillemet = [CHR 0xC2, CHR 0xAB]"

definition clapper :: string where
  "clapper = [CHR 0xF0, CHR 0x9F, CHR 0x8E, CHR 0xAC]"

definition picture_frame :: string where
  "picture_frame = [CHR 0xF0, CHR 0x9F, CHR 0x96, CHR 0xBC, CHR 0xEF, CHR 0xB8, CHR 0x8F]"

definition landscape :: string where
  "landscape = [CHR 0xF0, CHR 0x9F, CHR 0x8F, CHR 0x9E, CHR 0xEF, CHR 0xB8, CHR 0x8F]"

definition info_sign :: string where
  "info_sign = [CHR 0xE2, CHR 0x84, CHR 0xB9, CHR 0xEF, CHR 0xB8, CHR 0x8F]"

definition open_book :: string where
  "open_book = [CHR 0xF0, CHR 0x9F, CHR 0x93, CHR 0x96]"

definition star :: string where
  "star = [CHR 0xE2, CHR 0xAD, CHR 0x90]"

definition clock :: string where
  "clock = [CHR 0xF0, CHR 0x9F, CHR 0x95, CHR 0x92]"

definition masks :: string where
  "masks = [CHR 0xF0, CHR 0x9F, CHR 0x8E, CHR 0xAD]"

definition link_sign :: string where
  "link_sign = [CHR 0xF0, CHR 0x9F, CHR 0x94, CHR 0x97]"

definition newline :: string where
  "newline = [CHR 0x0A]"

text \<open>The alerts.\<close>

definition expired_alert :: pydict where
  "expired_alert =
     [(''text'', JStr ''Sorry, this session has expired. Please search again.''),
      (''show_alert'', JBool True)]"

definition no_images_notice :: pydict where
  "no_images_notice = [(''text'', JStr ''No images found for this selection.'')]"

definition error_alert :: "runtime \<Rightarrow> exc \<Rightarrow> pydict" where
  "error_alert rt e =
     [(''text'', JStr (''An error occurred: '' @ str_exc rt e)), (''show_alert'', JBool True)]"

definition button :: "string \<Rightarrow> string \<Rightarrow> json" where
  "button label tok = JDict [(''text'', JStr label), (''callback_data'', JStr tok)]"

text \<open>\<^verbatim>\<open>new_index = max(0, min(current_index, total_images - 1))\<close>.\<close>

definition effective_index :: "int \<Rightarrow> int \<Rightarrow> int" where
  "effective_index current_index total_images = max 0 (min current_index (total_images - 1))"

text \<open>The keyboard of an image view: \<^verbatim>\<open>row1\<close> and the row of the back button.\<close>

definition nav_token :: "string \<Rightarrow> string \<Rightarrow> int \<Rightarrow> string \<Rightarrow> string" where
  "nav_token media_type lang idx media_id =
     ''nav:'' @ media_type @ '':'' @ lang @ '':'' @ str_int idx @ '':'' @ media_id"

definition prev_button :: "string \<Rightarrow> string \<Rightarrow> int \<Rightarrow> string \<Rightarrow> json" where
  "prev_button media_type lang new_index media_id =
     button (left_arrow @ '' Prev'') (nav_token media_type lang (new_index - 1) media_id)"

definition next_button :: "string \<Rightarrow> string \<Rightarrow> int \<Rightarrow> string \<Rightarrow> json" where
  "next_button media_type lang new_index media_id =
     button (''Next '' @ right_arrow) (nav_token media_type lang (new_index + 1) media_id)"

definition indicator_button :: "int \<Rightarrow> int \<Rightarrow> json" where
  "indicator_button new_index total_images =
     button (str_int (new_index + 1) @ ''/'' @ str_int total_images) ''noop''"

definition back_to_languages_button :: "string \<Rightarrow> string \<Rightarrow> json" where
  "back_to_languages_button media_type media_id =
     button (guillemet @ '' Back to Languages'') (''view:'' @ media_type @ '':'' @ media_id)"

definition image_view_buttons :: "string \<Rightarrow> string \<Rightarrow> int \<Rightarrow> int \<Rightarrow> string \<Rightarrow> json list" where
  "image_view_buttons media_type lang new_index total_images media_id =
     (let row1 = (if new_index > 0 then [prev_button media_type lang new_index media_id] else [])
                 @ [indicator_button new_index total_images]
                 @ (if new_index < total_images - 1
                    then [next_button media_type lang new_index media_id] else [])
      in [JList row1, JList [back_to_languages_button media_type media_id]])"

text \<open>\<^verbatim>\<open>data.get("images", {}).get(media_type, {}).get(lang, [])\<close>.\<close>

definition image_list_of :: "json \<Rightarrow> string \<Rightarrow> string \<Rightarrow> exc + json" where
  "image_list_of data media_type lang =
     bind_exc (py_get data ''images'' (JDict []))
       (\<lambda>images. bind_exc (py_get images media_type (JDict []))
          (\<lambda>by_lang. py_get by_lang lang (JList [])))"

definition message_options :: "callback_query \<Rightarrow> pydict \<Rightarrow> json" where
  "message_options cb extra =
     JDict ([(''chat_id'', JInt (cb_chat_id cb)), (''message_id'', JInt (cb_message_id cb))] @ extra)"

definition keyboard :: "json list \<Rightarrow> json" where
  "keyboard rows = JDict [(''inline_keyboard'', JList rows)]"

text \<open>
  \<^verbatim>\<open>handle_pagination\<close>. The \<^verbatim>\<open>try\<close> block gives what it raised or that it returned,
  and the calls made until then; the \<^verbatim>\<open>except Exception\<close> clause answers the callback with
  the error. The cache is read once per call.
\<close>

definition pagination_try ::
  "runtime \<Rightarrow> bot_object \<Rightarrow> callback_query \<Rightarrow> env \<Rightarrow> string list \<Rightarrow> (exc + unit) \<times> bot_call list" where
  "pagination_try rt tbot cb environ parts =
     (case parts of
        [tag, media_type, lang, current_index_str, media_id] \<Rightarrow>
          (case int_of rt current_index_str of
             Inl e \<Rightarrow> (Inl e, [])
           | Inr current_index \<Rightarrow>
               (let data_str = BOT_STATE environ (''media:'' @ media_id)
                in if data_str = None \<or> data_str = Some []
                   then (Inr (), [Answer_callback_query (cb_id cb) (Some expired_alert)])
                   else
                     (case bind_exc (loads rt (the data_str))
                             (\<lambda>data. bind_exc (image_list_of data media_type lang)
                                (\<lambda>image_list. bind_exc (py_len image_list)
                                   (\<lambda>total_images. Inr (image_list, total_images)))) of
                        Inl e \<Rightarrow> (Inl e, [])
                      | Inr (image_list, total_images) \<Rightarrow>
                          if \<not> truthy image_list
                          then (Inr (), [Answer_callback_query (cb_id cb) (Some no_images_notice)])
                          else
                            (let new_index = effective_index current_index total_images;
                                 buttons = image_view_buttons media_type lang new_index
                                             total_images media_id
                             in case py_index image_list new_index of
                                  Inl e \<Rightarrow> (Inl e, [])
                                | Inr img \<Rightarrow>
                                    (let media = JDict [(''type'', JStr ''photo''), (''media'', img)];
                                         options = message_options cb
                                                     [(''reply_markup'', keyboard buttons)]
                                     in case edit_message_media tbot media options of
                                          Some e \<Rightarrow> (Inl e, [Edit_message_media media options])
                                        | None \<Rightarrow>
                                            (Inr (), [Edit_message_media media options,
                                                      Answer_callback_query (cb_id cb) None]))))))
      | _ \<Rightarrow> (Inl ValueError, []))"

definition handle_pagination ::
  "runtime \<Rightarrow> bot_object \<Rightarrow> callback_query \<Rightarrow> env \<Rightarrow> string list \<Rightarrow> exc option \<times> bot_call list" where
  "handle_pagination rt tbot cb environ parts =
     (case pagination_try rt tbot cb environ parts of
        (Inl e, calls) \<Rightarrow>
          (None, calls @ [Answer_callback_query (cb_id cb) (Some (error_alert rt e))])
      | (Inr u, calls) \<Rightarrow> (None, calls))"

text \<open>The \<^verbatim>\<open>view\<close> branch of \<^verbatim>\<open>handle_callback\<close>: one row per language, sorted.\<close>

definition language_button :: "json \<Rightarrow> string \<Rightarrow> string \<Rightarrow> string \<Rightarrow> exc + json" where
  "language_button result_data media_type media_id lang =
     (let lang_name = (if length lang = 2 then upper lang else ''No Language'')
      in bind_exc (py_item result_data ''images'')
           (\<lambda>images. bind_exc (py_item images media_type)
              (\<lambda>by_lang. bind_exc (py_item by_lang lang)
                 (\<lambda>image_list. bind_exc (py_len image_list)
                    (\<lambda>count. Inr (JList [button (lang_name @ '' ('' @ str_int count @ '')'')
                                             (nav_token media_type lang 0 media_id)]))))))"

fun language_buttons :: "json \<Rightarrow> string \<Rightarrow> string \<Rightarrow> string list \<Rightarrow> exc + json list" where
  "language_buttons result_data media_type media_id [] = Inr []"
| "language_buttons result_data media_type media_id (lang # langs) =
     (case language_button result_data media_type media_id lang of
        Inl e \<Rightarrow> Inl e
      | Inr row \<Rightarrow>
          (case language_buttons result_data media_type media_id langs of
             Inl e \<Rightarrow> Inl e
           | Inr rows \<Rightarrow> Inr (row # rows)))"

definition back_to_main_button :: "string \<Rightarrow> json" where
  "back_to_main_button media_id =
     button (guillemet @ '' Back to Main Menu'') (''back:main:'' @ media_id)"

definition caption_options :: "callback_query \<Rightarrow> json \<Rightarrow> json" where
  "caption_options cb markup =
     message_options cb [(''parse_mode'', JStr ''Markdown''), (''reply_markup'', markup)]"

text \<open>\<^verbatim>\<open>await bot.edit_message_caption(...)\<close> and then
  \<^verbatim>\<open>await bot.answer_callback_query(cb['id'])\<close>, outside any \<^verbatim>\<open>try\<close>.\<close>

definition edit_caption_and_answer ::
  "bot_object \<Rightarrow> callback_query \<Rightarrow> string \<Rightarrow> json \<Rightarrow> exc option \<times> bot_call list" where
  "edit_caption_and_answer tbot cb caption options =
     (case edit_message_caption tbot caption options of
        Some e \<Rightarrow> (Some e, [Edit_message_caption caption options])
      | None \<Rightarrow>
          (None, [Edit_message_caption caption options, Answer_callback_query (cb_id cb) None]))"

definition view_branch ::
  "runtime \<Rightarrow> bot_object \<Rightarrow> callback_query \<Rightarrow> string list \<Rightarrow> string \<Rightarrow> json
     \<Rightarrow> exc option \<times> bot_call list" where
  "view_branch rt tbot cb parts media_id result_data =
     (case seq_index parts 1 of
        Inl e \<Rightarrow> (Some e, [])
      | Inr media_type \<Rightarrow>
          (case bind_exc (py_get result_data ''images'' (JDict []))
                  (\<lambda>images. bind_exc (py_get images media_type (JDict []))
                     (\<lambda>by_lang. bind_exc (py_keys by_lang)
                        (\<lambda>langs. bind_exc
                            (language_buttons result_data media_type media_id (sort langs))
                            (\<lambda>rows. bind_exc (py_get result_data ''title'' JNull)
                               (\<lambda>title. Inr (rows, title)))))) of
             Inl e \<Rightarrow> (Some e, [])
           | Inr (rows, title) \<Rightarrow>
               edit_caption_and_answer tbot cb
                 (''Select a language for *'' @ py_str rt title @ ''* ''
                    @ capitalize media_type @ '':'')
                 (caption_options cb (keyboard (rows @ [JList [back_to_main_button media_id]])))))"

text \<open>The \<^verbatim>\<open>details\<close> branch. Every field is read with \<^verbatim>\<open>result_data.get\<close>, which
  raises \<^verbatim>\<open>AttributeError\<close> on anything but a dict.\<close>

definition details_text :: "runtime \<Rightarrow> json \<Rightarrow> exc + string" where
  "details_text rt result_data =
     (case result_data of
        JDict d \<Rightarrow>
          Inr (clapper @ '' *'' @ py_str rt (dict_get d ''title'' JNull) @ ''* (''
                 @ py_str rt (dict_get d ''year'' JNull) @ '')'' @ newline @ newline
               @ ''*'' @ py_str rt (dict_get d ''tagline'' (JStr [])) @ ''*'' @ newline @ newline
               @ open_book @ '' *Plot:* '' @ py_str rt (dict_get d ''plot'' (JStr ''N/A''))
                 @ newline @ newline
               @ star @ '' *Rating:* '' @ py_str rt (dict_get d ''rating'' (JStr ''N/A''))
                 @ '' ('' @ py_str rt (dict_get d ''votes'' (JStr ''N/A'')) @ '' votes)'' @ newline
               @ clock @ '' *Runtime:* '' @ py_str rt (dict_get d ''runtime'' (JStr ''N/A''))
                 @ newline
               @ masks @ '' *Genres:* '' @ py_str rt (dict_get d ''genres'' (JStr ''N/A''))
                 @ newline @ newline
               @ link_sign @ '' [View on TMDB]('' @ py_str rt (dict_get d ''url'' JNull) @ '')'')
      | _ \<Rightarrow> Inl AttributeError)"

definition details_branch ::
  "runtime \<Rightarrow> bot_object \<Rightarrow> callback_query \<Rightarrow> string \<Rightarrow> json \<Rightarrow> exc option \<times> bot_call list" where
  "details_branch rt tbot cb media_id result_data =
     (case details_text rt result_data of
        Inl e \<Rightarrow> (Some e, [])
      | Inr details \<Rightarrow>
          edit_caption_and_answer tbot cb details
            (caption_options cb (keyboard [JList [back_to_main_button media_id]])))"

text \<open>The \<^verbatim>\<open>back\<close> branch: only the destination \<^verbatim>\<open>main\<close> has code.\<close>

definition main_caption :: "runtime \<Rightarrow> json \<Rightarrow> exc + string" where
  "main_caption rt result_data =
     bind_exc (py_get result_data ''plot'' (JStr ''No summary available.''))
       (\<lambda>plot. bind_exc (py_get result_data ''title'' (JStr ''N/A''))
          (\<lambda>title. bind_exc (py_get result_data ''year'' (JStr ''N/A''))
             (\<lambda>year. bind_exc (py_prefix 800 plot)
                (\<lambda>summary. Inr (clapper @ '' *'' @ py_str rt title @ ''* ('' @ py_str rt year
                                   @ '')'' @ newline @ newline @ py_str rt summary)))))"

definition main_keyboard :: "string \<Rightarrow> json" where
  "main_keyboard media_id =
     keyboard
       [JList [button (picture_frame @ '' View Posters'') (''view:posters:'' @ media_id),
               button (landscape @ '' View Backdrops'') (''view:backdrops:'' @ media_id)],
        JList [button (info_sign @ '' Full Details'') (''details:'' @ media_id)]]"

definition back_branch ::
  "runtime \<Rightarrow> bot_object \<Rightarrow> callback_query \<Rightarrow> string list \<Rightarrow> string \<Rightarrow> json
     \<Rightarrow> exc option \<times> bot_call list" where
  "back_branch rt tbot cb parts media_id result_data =
     (case seq_index parts 1 of
        Inl e \<Rightarrow> (Some e, [])
      | Inr destination \<Rightarrow>
          if destination = ''main'' then
            (case main_caption rt result_data of
               Inl e \<Rightarrow> (Some e, [])
             | Inr caption \<Rightarrow>
                 edit_caption_and_answer tbot cb caption
                   (caption_options cb (main_keyboard media_id)))
          else (None, []))"

text \<open>\<^verbatim>\<open>handle_callback\<close>. Its first two lines are \<^verbatim>\<open>data = cb.get("data", "")\<close> and
  \<^verbatim>\<open>parts = data.split(":")\<close>.\<close>

definition callback_parts :: "callback_query \<Rightarrow> string list" where
  "callback_parts cb = split_on CHR '':'' (case cb_data cb of None \<Rightarrow> [] | Some d \<Rightarrow> d)"

definition handle_callback ::
  "runtime \<Rightarrow> bot_object \<Rightarrow> callback_query \<Rightarrow> env \<Rightarrow> exc option \<times> bot_call list" where
  "handle_callback rt tbot cb environ =
     (let parts = callback_parts cb;
          action = hd parts
      in if action = ''noop'' then (None, [Answer_callback_query (cb_id cb) None])
         else
           (let media_id = last parts;
                data_str = BOT_STATE environ (''media:'' @ media_id)
            in if data_str = None \<or> data_str = Some []
               then (None, [Answer_callback_query (cb_id cb) (Some expired_alert)])
               else
                 (case loads rt (the data_str) of
                    Inl e \<Rightarrow> (Some e, [])
                  | Inr result_data \<Rightarrow>
                      if action = ''view'' then view_branch rt tbot cb parts media_id result_data
                      else if action = ''nav'' then handle_pagination rt tbot cb environ parts
                      else if action = ''details'' then details_branch rt tbot cb media_id result_data
                      else if action = ''back'' then back_branch rt tbot cb parts media_id result_data
                      else (None, []))))"

section \<open>\_fix\_reply\_markup on the heap\<close>

text \<open>
  Whether normalization touches the caller's objects is a question about references, so
  the same method is given once more with an explicit store. A Python value is an
  immutable atom or a reference to a mutable dict or list; the heap is the list of the
  objects allocated so far, an address is a position in it, and a new object goes to the
  end. \<^verbatim>\<open>dict(x)\<close> and \<^verbatim>\<open>[]\<close> allocate; \<^verbatim>\<open>pop\<close>, \<^verbatim>\<open>d[k] = v\<close> and \<^verbatim>\<open>append\<close> overwrite
  the object at the address they are called on. The store holds markups of the annotated
  shape, dicts and lists of dicts, lists and atoms: here a truthy argument that is not a
  dict, a keyboard or row that is not a list and a button that is not a dict end the call
  with \<open>TypeError\<close> (on a string or a dict in such a place Python goes on as described
  above, and still writes to the objects it has built in the call only). An address beyond the end of the heap does not occur in a Python state; it reads
  as falsy and as no object.
\<close>

type_synonym addr = nat

datatype val = VNone | VBool bool | VInt int | VStr string | VRef addr

datatype obj = Dict_obj "(string \<times> val) list" | List_obj "val list"

type_synonym heap = "obj list"

definition heap_get :: "heap \<Rightarrow> addr \<Rightarrow> obj option" where
  "heap_get h a = (if a < length h then Some (h ! a) else None)"

definition truthy_at :: "heap \<Rightarrow> val \<Rightarrow> bool" where
  "truthy_at h v =
     (case v of
        VNone \<Rightarrow> False
      | VBool b \<Rightarrow> b
      | VInt i \<Rightarrow> i \<noteq> 0
      | VStr s \<Rightarrow> s \<noteq> []
      | VRef a \<Rightarrow> (case heap_get h a of
                     Some (Dict_obj d) \<Rightarrow> d \<noteq> []
                   | Some (List_obj xs) \<Rightarrow> xs \<noteq> []
                   | None \<Rightarrow> False))"

definition pop_key :: "heap \<Rightarrow> addr \<Rightarrow> string \<Rightarrow> val \<times> heap" where
  "pop_key h a k =
     (case heap_get h a of
        Some (Dict_obj d) \<Rightarrow>
          (case map_of d k of
             None \<Rightarrow> (VNone, h)
           | Some v \<Rightarrow> (v, h[a := Dict_obj (filter (\<lambda>p. fst p \<noteq> k) d)]))
      | _ \<Rightarrow> (VNone, h))"

definition set_key :: "heap \<Rightarrow> addr \<Rightarrow> string \<Rightarrow> val \<Rightarrow> heap" where
  "set_key h a k v =
     (case heap_get h a of Some (Dict_obj d) \<Rightarrow> h[a := Dict_obj (dict_set k v d)] | _ \<Rightarrow> h)"

definition append_to :: "heap \<Rightarrow> addr \<Rightarrow> val \<Rightarrow> heap" where
  "append_to h a v =
     (case heap_get h a of Some (List_obj xs) \<Rightarrow> h[a := List_obj (xs @ [v])] | _ \<Rightarrow> h)"

text \<open>The body of the inner loop up to \<^verbatim>\<open>fixed_row.append\<close>: the copy of one button.\<close>

definition copy_button :: "heap \<Rightarrow> val \<Rightarrow> (exc + addr) \<times> heap" where
  "copy_button h btn =
     (case btn of
        VRef b \<Rightarrow>
          (case heap_get h b of
             Some (Dict_obj d) \<Rightarrow>
               (let btn_copy = length h;
                    h1 = h @ [Dict_obj d];
                    (v1, h2) = pop_key h1 btn_copy ''callbackData'';
                    (cb, h3) = (if truthy_at h2 v1 then (v1, h2)
                                else pop_key h2 btn_copy ''callback'');
                    h4 = (if cb \<noteq> VNone then set_key h3 btn_copy ''callback_data'' cb else h3)
                in (Inr btn_copy, h4))
           | _ \<Rightarrow> (Inl TypeError, h))
      | _ \<Rightarrow> (Inl TypeError, h))"

fun fill_row :: "heap \<Rightarrow> addr \<Rightarrow> val list \<Rightarrow> (exc + unit) \<times> heap" where
  "fill_row h fixed_row [] = (Inr (), h)"
| "fill_row h fixed_row (btn # btns) =
     (case copy_button h btn of
        (Inl e, h') \<Rightarrow> (Inl e, h')
      | (Inr btn_copy, h') \<Rightarrow> fill_row (append_to h' fixed_row (VRef btn_copy)) fixed_row btns)"

fun fill_keyboard :: "heap \<Rightarrow> addr \<Rightarrow> val list \<Rightarrow> (exc + unit) \<times> heap" where
  "fill_keyboard h fixed_kb [] = (Inr (), h)"
| "fill_keyboard h fixed_kb (row # rows) =
     (let fixed_row = length h;
          h1 = h @ [List_obj []]
      in case row of
           VRef r \<Rightarrow>
             (case heap_get h1 r of
                Some (List_obj btns) \<Rightarrow>
                  (case fill_row h1 fixed_row btns of
                     (Inl e, h2) \<Rightarrow> (Inl e, h2)
                   | (Inr u, h2) \<Rightarrow>
                       fill_keyboard (append_to h2 fixed_kb (VRef fixed_row)) fixed_kb rows)
              | _ \<Rightarrow> (Inl TypeError, h1))
         | _ \<Rightarrow> (Inl TypeError, h1))"

definition fix_reply_markup_heap :: "heap \<Rightarrow> val \<Rightarrow> (exc + val) \<times> heap" where
  "fix_reply_markup_heap h reply_markup =
     (if \<not> truthy_at h reply_markup then (Inr reply_markup, h)
      else
        (case reply_markup of
           VRef a \<Rightarrow>
             (case heap_get h a of
                Some (Dict_obj d) \<Rightarrow>
                  (case map_of d ''inline_keyboard'' of
                     None \<Rightarrow> (Inr reply_markup, h)
                   | Some kb \<Rightarrow>
                       (let rm = length h;
                            h1 = h @ [Dict_obj d];
                            fixed_kb = length h1;
                            h2 = h1 @ [List_obj []]
                        in case kb of
                             VRef k \<Rightarrow>
                               (case heap_get h2 k of
                                  Some (List_obj rows) \<Rightarrow>
                                    (case fill_keyboard h2 fixed_kb rows of
                                       (Inl e, h3) \<Rightarrow> (Inl e, h3)
                                     | (Inr u, h3) \<Rightarrow>
                                         (Inr (VRef rm),
                                          set_key h3 rm ''inline_keyboard'' (VRef fixed_kb)))
                                | _ \<Rightarrow> (Inl TypeError, h2))
                           | _ \<Rightarrow> (Inl TypeError, h2)))
              | _ \<Rightarrow> (Inl TypeError, h))
         | _ \<Rightarrow> (Inl TypeError, h)))"

text \<open>The markup a reference leads to is built of new objects only when the top-level
  dict, the keyboard list, every row list and every button dict lie at or above the old
  end of the heap.\<close>

definition fresh_dict :: "nat \<Rightarrow> heap \<Rightarrow> val \<Rightarrow> bool" where
  "fresh_dict n h v =
     (case v of
        VRef c \<Rightarrow> n \<le> c \<and> (case heap_get h c of Some (Dict_obj d) \<Rightarrow> True | _ \<Rightarrow> False)
      | _ \<Rightarrow> False)"

definition fresh_row :: "nat \<Rightarrow> heap \<Rightarrow> val \<Rightarrow> bool" where
  "fresh_row n h v =
     (case v of
        VRef r \<Rightarrow> n \<le> r \<and> (case heap_get h r of
                              Some (List_obj btns) \<Rightarrow> list_all (fresh_dict n h) btns
                            | _ \<Rightarrow> False)
      | _ \<Rightarrow> False)"

definition fresh_markup :: "nat \<Rightarrow> heap \<Rightarrow> val \<Rightarrow> bool" where
  "fresh_markup n h v =
     (case v of
        VRef rm \<Rightarrow>
          n \<le> rm \<and>
          (case heap_get h rm of
             Some (Dict_obj d) \<Rightarrow>
               (case map_of d ''inline_keyboard'' of
                  Some (VRef k) \<Rightarrow>
                    n \<le> k \<and> (case heap_get h k of
                                Some (List_obj rows) \<Rightarrow> list_all (fresh_row n h) rows
                              | _ \<Rightarrow> False)
                | _ \<Rightarrow> False)
           | _ \<Rightarrow> False)
      | _ \<Rightarrow> False)"

section \<open>Notions the statements use\<close>

text \<open>The button dicts of a markup, row by row; a row of button dicts.\<close>

definition row_buttons :: "json \<Rightarrow> pydict list" where
  "row_buttons row = (case row of JList btns \<Rightarrow> concat (map (\<lambda>b. case b of JDict d \<Rightarrow> [d] | _ \<Rightarrow> []) btns) | _ \<Rightarrow> [])"

definition buttons_of :: "json \<Rightarrow> pydict list" where
  "buttons_of markup =
     (case markup of
        JDict rm \<Rightarrow> (case dict_get rm ''inline_keyboard'' JNull of
                       JList rows \<Rightarrow> concat (map row_buttons rows)
                     | _ \<Rightarrow> [])
      | _ \<Rightarrow> [])"

text \<open>A button is canonical when it has neither alias field; it carries both aliases when
  \<^verbatim>\<open>callbackData\<close> is truthy, so that the \<^verbatim>\<open>or\<close> stops there, and \<^verbatim>\<open>callback\<close> is present too.\<close>

definition canonical_button :: "pydict \<Rightarrow> bool" where
  "canonical_button btn = (\<not> dict_has ''callbackData'' btn \<and> \<not> dict_has ''callback'' btn)"

definition both_aliases :: "pydict \<Rightarrow> bool" where
  "both_aliases btn = (truthy (dict_get btn ''callbackData'' JNull) \<and> dict_has ''callback'' btn)"

definition dict_row :: "pydict list \<Rightarrow> json" where
  "dict_row ds = JList (map JDict ds)"

text \<open>The photo and the options \<^verbatim>\<open>handle_pagination\<close> passes to \<^verbatim>\<open>edit_message_media\<close>.\<close>

definition photo :: "json \<Rightarrow> json" where
  "photo img = JDict [(''type'', JStr ''photo''), (''media'', img)]"

definition view_options :: "callback_query \<Rightarrow> string \<Rightarrow> string \<Rightarrow> int \<Rightarrow> int \<Rightarrow> string \<Rightarrow> json" where
  "view_options cb media_type lang new_index total_images media_id =
     message_options cb
       [(''reply_markup'',
         keyboard (image_view_buttons media_type lang new_index total_images media_id))]"

text \<open>On the heap: the argument is a dict without the key \<^verbatim>\<open>inline_keyboard\<close>; the heap
  \<open>h'\<close> is as long as \<open>h\<close> or longer and differs from it below the end of \<open>h\<close> at the
  address \<open>k\<close> at most.\<close>

definition lacks_keyboard :: "heap \<Rightarrow> val \<Rightarrow> bool" where
  "lacks_keyboard h v =
     (case v of
        VRef a \<Rightarrow> (case heap_get h a of
                     Some (Dict_obj d) \<Rightarrow> map_of d ''inline_keyboard'' = None
                   | _ \<Rightarrow> False)
      | _ \<Rightarrow> False)"

definition touches_only :: "addr \<Rightarrow> heap \<Rightarrow> heap \<Rightarrow> bool" where
  "touches_only k h h' = (length h \<le> length h' \<and> (\<forall>a < length h. a \<noteq> k \<longrightarrow> h' ! a = h ! a))"

text \<open>A call a handler asked for went through when it returned: an answer does, an edit
  does when the bot's method returns.\<close>

fun went_through :: "bot_object \<Rightarrow> bot_call \<Rightarrow> bool" where
  "went_through tbot (Answer_callback_query callback_query_id options) = True"
| "went_through tbot (Edit_message_media media options) =
     (edit_message_media tbot media options = None)"
| "went_through tbot (Edit_message_caption caption options) =
     (edit_message_caption tbot caption options = None)"

text \<open>The number of \<^verbatim>\<open>answer_callback_query\<close> calls among the calls a handler made.\<close>

fun is_answer :: "bot_call \<Rightarrow> bool" where
  "is_answer (Answer_callback_query callback_query_id options) = True"
| "is_answer other = False"

definition answer_count :: "bot_call list \<Rightarrow> nat" where
  "answer_count calls = length (filter is_answer calls)"

text \<open>
  Reading a markup back from the heap as a value: \<^verbatim>\<open>None\<close> or a dict whose
  \<^verbatim>\<open>inline_keyboard\<close> leads to a list of lists of button dicts, with atoms everywhere
  else. A heap extends another when it has the same objects at the old addresses.
\<close>

fun atom :: "val \<Rightarrow> json option" where
  "atom VNone = Some JNull"
| "atom (VBool b) = Some (JBool b)"
| "atom (VInt i) = Some (JInt i)"
| "atom (VStr s) = Some (JStr s)"
| "atom (VRef a) = None"

definition read_dict :: "(string \<times> val) list \<Rightarrow> pydict option" where
  "read_dict d =
     (if list_all (\<lambda>p. atom (snd p) \<noteq> None) d
      then Some (map (\<lambda>p. (fst p, the (atom (snd p)))) d) else None)"

definition read_all :: "(val \<Rightarrow> json option) \<Rightarrow> val list \<Rightarrow> json list option" where
  "read_all f vs = (if list_all (\<lambda>v. f v \<noteq> None) vs then Some (map (\<lambda>v. the (f v)) vs) else None)"

definition read_button :: "heap \<Rightarrow> val \<Rightarrow> json option" where
  "read_button h v =
     (case v of
        VRef c \<Rightarrow> (case heap_get h c of
                     Some (Dict_obj d) \<Rightarrow> map_option JDict (read_dict d)
                   | _ \<Rightarrow> None)
      | _ \<Rightarrow> None)"

definition read_list :: "(val \<Rightarrow> json option) \<Rightarrow> heap \<Rightarrow> val \<Rightarrow> json option" where
  "read_list f h v =
     (case v of
        VRef a \<Rightarrow> (case heap_get h a of
                     Some (List_obj vs) \<Rightarrow> map_option JList (read_all f vs)
                   | _ \<Rightarrow> None)
      | _ \<Rightarrow> None)"

definition read_row :: "heap \<Rightarrow> val \<Rightarrow> json option" where
  "read_row h = read_list (read_button h) h"

definition read_keyboard :: "heap \<Rightarrow> val \<Rightarrow> json option" where
  "read_keyboard h = read_list (read_row h) h"

definition read_field :: "heap \<Rightarrow> string \<times> val \<Rightarrow> json option" where
  "read_field h p = (if fst p = ''inline_keyboard'' then read_keyboard h (snd p) else atom (snd p))"

definition read_markup :: "heap \<Rightarrow> val \<Rightarrow> json option" where
  "read_markup h v =
     (case v of
        VNone \<Rightarrow> Some JNull
      | VRef a \<Rightarrow> (case heap_get h a of
                     Some (Dict_obj d) \<Rightarrow>
                       (if list_all (\<lambda>p. read_field h p \<noteq> None) d
                        then Some (JDict (map (\<lambda>p. (fst p, the (read_field h p))) d)) else None)
                   | _ \<Rightarrow> None)
      | _ \<Rightarrow> None)"

definition extends :: "heap \<Rightarrow> heap \<Rightarrow> bool" where
  "extends h h' = (\<forall>a < length h. heap_get h' a = heap_get h a)"

section \<open>Sample inputs\<close>

text \<open>
  The \<^verbatim>\<open>int\<close> of the sample runtimes. It reads ASCII text, as Python does there: white
  space around, an optional sign, decimal digits with single underscores between them, at
  most 4300 digits. Text with other characters, some of which Python accepts, is refused
  by this sample with \<^verbatim>\<open>ValueError\<close>.
\<close>

definition is_space :: "char \<Rightarrow> bool" where
  "is_space c = (c \<in> set [CHR 0x09, CHR 0x0A, CHR 0x0B, CHR 0x0C, CHR 0x0D, CHR 0x20])"

definition is_digit :: "char \<Rightarrow> bool" where
  "is_digit c = (c \<in> set ''0123456789'')"

definition digit_val :: "char \<Rightarrow> nat" where
  "digit_val c = of_char c - 48"

fun parse_more :: "nat \<Rightarrow> string \<Rightarrow> nat option" where
  "parse_more acc [] = Some acc"
| "parse_more acc [c] = (if is_digit c then Some (acc * 10 + digit_val c) else None)"
| "parse_more acc (c # d # ds) =
     (if is_digit c then parse_more (acc * 10 + digit_val c) (d # ds)
      else if c = CHR ''_'' \<and> is_digit d then parse_more (acc * 10 + digit_val d) ds
      else None)"

definition parse_digits :: "string \<Rightarrow> nat option" where
  "parse_digits s = (case s of [] \<Rightarrow> None | c # cs \<Rightarrow> if is_digit c then parse_more (digit_val c) cs else None)"

definition strip :: "string \<Rightarrow> string" where
  "strip s = rev (dropWhile is_space (rev (dropWhile is_space s)))"

definition ascii_int :: "string \<Rightarrow> exc + int" where
  "ascii_int s =
     (let t = strip s;
          (negative, body) = (case t of
                                c # cs \<Rightarrow> if c = CHR ''-'' then (True, cs)
                                          else if c = CHR ''+'' then (False, cs) else (False, t)
                              | [] \<Rightarrow> (False, t))
      in case parse_digits body of
           None \<Rightarrow> Inl ValueError
         | Some n \<Rightarrow>
             if length (filter is_digit body) \<le> 4300
             then Inr (if negative then - int n else int n) else Inl ValueError)"

text \<open>A runtime whose network is down, for the checks of the client at concrete inputs.\<close>

definition failing_runtime :: runtime where
  "failing_runtime =
     \<lparr>fetch = (\<lambda>req. Inl (Raised ''network down'')),
      loads = (\<lambda>s. Inl ValueError),
      dumps = (\<lambda>v. ''{}''),
      str_exc = (\<lambda>e. case e of Raised msg \<Rightarrow> msg | _ \<Rightarrow> ''error''),
      repr_of = (\<lambda>v. ''?''),
      token_hex = ''00'',
      int_of = ascii_int\<rparr>"

text \<open>Markups with one button: one alias, both aliases, none.\<close>

definition both_alias_markup :: json where
  "both_alias_markup =
     JDict [(''inline_keyboard'',
             JList [JList [JDict [(''text'', JStr ''Go''), (''callbackData'', JStr ''x''),
                                  (''callback'', JStr ''y'')]]])]"

definition alias_markup :: json where
  "alias_markup =
     JDict [(''inline_keyboard'',
             JList [JList [JDict [(''text'', JStr ''Go''), (''callbackData'', JStr ''x'')]]])]"

definition canonical_markup :: json where
  "canonical_markup =
     JDict [(''inline_keyboard'',
             JList [JList [JDict [(''text'', JStr ''Go''), (''callback_data'', JStr ''x'')]]])]"

definition once_fixed :: json where
  "once_fixed =
     JDict [(''inline_keyboard'',
             JList [JList [JDict [(''text'', JStr ''Go''), (''callback'', JStr ''y''),
                                  (''callback_data'', JStr ''x'')]]])]"

definition twice_fixed :: json where
  "twice_fixed =
     JDict [(''inline_keyboard'',
             JList [JList [JDict [(''text'', JStr ''Go''), (''callback_data'', JStr ''y'')]]])]"

text \<open>
  A session as the search leaves it in the cache, with three posters in English; a runtime
  whose \<^verbatim>\<open>json.loads\<close> knows the cached string; the cache holding it under
  \<^verbatim>\<open>media:123\<close>, and a second cache holding it under \<^verbatim>\<open>media:view\<close>; a bot whose edit
  methods return; a button press with a given token.
\<close>

definition sample_session :: json where
  "sample_session =
     JDict [(''media_id'', JStr ''123''), (''title'', JStr ''Dune''),
            (''images'',
             JDict [(''posters'', JDict [(''en'', JList [JStr ''u1'', JStr ''u2'', JStr ''u3''])])])]"

definition sample_runtime :: runtime where
  "sample_runtime =
     \<lparr>fetch = (\<lambda>req. Inr (Inr (JDict [(''ok'', JBool True)]))),
      loads = (\<lambda>s. if s = ''session-123'' then Inr sample_session else Inl ValueError),
      dumps = (\<lambda>v. ''{}''),
      str_exc = (\<lambda>e. ''error''),
      repr_of = (\<lambda>v. ''?''),
      token_hex = ''00'',
      int_of = ascii_int\<rparr>"

definition sample_env :: env where
  "sample_env = \<lparr>BOT_STATE = (\<lambda>k. if k = ''media:123'' then Some ''session-123'' else None)\<rparr>"

definition odd_env :: env where
  "odd_env = \<lparr>BOT_STATE = (\<lambda>k. if k = ''media:view'' then Some ''session-123'' else None)\<rparr>"

definition willing_bot :: bot_object where
  "willing_bot =
     \<lparr>edit_message_media = (\<lambda>media options. None),
      edit_message_caption = (\<lambda>caption options. None)\<rparr>"

definition press :: "string \<Rightarrow> callback_query" where
  "press tok = \<lparr>cb_id = ''q1'', cb_chat_id = 7, cb_message_id = 42, cb_data = Some tok\<rparr>"

text \<open>
  A dispatcher with two message handlers and one callback handler, registered in that
  order; each handler appends its name to the log that stands for the world. An update
  with a message, and one with neither a message nor a callback event.
\<close>

definition log_handler :: "string \<Rightarrow> (unit, string list) bot_handler" where
  "log_handler name tbot payload s = (None, s @ [name])"

definition sample_dispatcher :: "(unit, string list) dispatcher" where
  "sample_dispatcher =
     on_callback_query
       (on_message (on_message Dispatcher (log_handler ''first'')) (log_handler ''second''))
       (log_handler ''callback'')"

definition message_update :: pydict where
  "message_update = [(''update_id'', JInt 1), (''message'', JDict [(''text'', JStr ''hi'')])]"

definition edited_message_update :: pydict where
  "edited_message_update =
     [(''update_id'', JInt 2), (''edited_message'', JDict [(''text'', JStr ''hi'')])]"

text \<open>A heap holding one markup (dict, keyboard, row, button with an alias), and the same
  heap after normalization.\<close>

definition sample_heap :: heap where
  "sample_heap =
     [Dict_obj [(''inline_keyboard'', VRef 1)],
      List_obj [VRef 2],
      List_obj [VRef 3],
      Dict_obj [(''text'', VStr ''Go''), (''callbackData'', VStr ''x'')]]"

definition sample_heap_after :: heap where
  "sample_heap_after =
     sample_heap @
     [Dict_obj [(''inline_keyboard'', VRef 5)],
      List_obj [VRef 6],
      List_obj [VRef 7],
      Dict_obj [(''text'', VStr ''Go''), (''callback_data'', VStr ''x'')]]"

text \<open>A runtime whose responses are not JSON.\<close>

definition garbled_runtime :: runtime where
  "garbled_runtime = sample_runtime\<lparr>fetch := (\<lambda>req. Inr (Inl (Raised ''not JSON'')))\<rparr>"

section \<open>The protocol client returns errors as results\<close>

text \<open>
  C3. Whatever the method, content type and body, \<^verbatim>\<open>_api_call\<close> returns a result and does
  not raise, and so does \<^verbatim>\<open>_post_json\<close> for every JSON payload. When \<^verbatim>\<open>fetch\<close> raises, or
  when parsing the response raises, the result is the dict with \<^verbatim>\<open>ok\<close> false and the
  description of the exception; otherwise it is the parsed body.
\<close>

theorem api_call_never_raises:
  "(\<exists>result. api_call rt self meth content_type body = Inr result) \<and>
   (\<exists>result. post_json rt self meth payload = Inr result) \<and>
   (\<forall>e. fetch rt (post_request self meth content_type body) = Inl e \<longrightarrow>
          api_call rt self meth content_type body = Inr (error_result rt e)) \<and>
   (\<forall>e. fetch rt (post_request self meth content_type body) = Inr (Inl e) \<longrightarrow>
          api_call rt self meth content_type body = Inr (error_result rt e)) \<and>
   (\<forall>parsed. fetch rt (post_request self meth content_type body) = Inr (Inr parsed) \<longrightarrow>
          api_call rt self meth content_type body = Inr parsed)"
  by (auto simp: api_call_def post_json_def try_except_def bind_exc_def split: sum.splits)

theorem api_call_never_raises_witness:
  "fetch failing_runtime (post_request \<lparr>token = ''T''\<rparr> ''getMe'' ''application/json'' ''{}'')
     = Inl (Raised ''network down'') \<and>
   api_call failing_runtime \<lparr>token = ''T''\<rparr> ''getMe'' ''application/json'' ''{}''
     = Inr (JDict [(''ok'', JBool False), (''description'', JStr ''network down'')]) \<and>
   fetch garbled_runtime (post_request \<lparr>token = ''T''\<rparr> ''getMe'' ''application/json'' ''{}'')
     = Inr (Inl (Raised ''not JSON'')) \<and>
   api_call garbled_runtime \<lparr>token = ''T''\<rparr> ''getMe'' ''application/json'' ''{}''
     = Inr (JDict [(''ok'', JBool False), (''description'', JStr ''error'')]) \<and>
   fetch sample_runtime (post_request \<lparr>token = ''T''\<rparr> ''getMe'' ''application/json'' ''{}'')
     = Inr (Inr (JDict [(''ok'', JBool True)])) \<and>
   api_call sample_runtime \<lparr>token = ''T''\<rparr> ''getMe'' ''application/json'' ''{}''
     = Inr (JDict [(''ok'', JBool True)])"
  using api_call_never_raises
          [of failing_runtime "\<lparr>token = ''T''\<rparr>" "''getMe''" "''application/json''" "''{}''"]
        api_call_never_raises
          [of garbled_runtime "\<lparr>token = ''T''\<rparr>" "''getMe''" "''application/json''" "''{}''"]
        api_call_never_raises
          [of sample_runtime "\<lparr>token = ''T''\<rparr>" "''getMe''" "''application/json''" "''{}''"]
  by (simp add: failing_runtime_def garbled_runtime_def sample_runtime_def error_result_def)

text \<open>So \<^verbatim>\<open>answer_callback_query\<close>, which goes through \<^verbatim>\<open>_post_json\<close>, does not raise; the
  model of the handlers relies on it.\<close>

lemma answer_callback_query_never_raises:
  "\<exists>result. answer_callback_query rt self callback_query_id options = Inr result"
  by (auto simp: answer_callback_query_def post_json_def api_call_def try_except_def
        bind_exc_def split: sum.splits)

section \<open>Markup normalization\<close>

subsection \<open>Dicts and buttons\<close>

lemma map_of_dict_del: "map_of (dict_del k d) k' = (if k' = k then None else map_of d k')"
  by (induction d) (auto simp: dict_del_def)

lemma map_of_dict_set: "map_of (dict_set k v d) k' = (if k' = k then Some v else map_of d k')"
  by (induction d) auto

lemma dict_set_same: "map_of d k = Some v \<Longrightarrow> dict_set k v d = d"
  by (induction d) (auto split: if_splits)

lemma dict_set_twice: "dict_set k v (dict_set k w d) = dict_set k v d"
  by (induction d) auto

lemma dict_set_nonempty: "dict_set k v d \<noteq> []"
  by (cases d) auto

lemma dict_del_absent: "map_of d k = None \<Longrightarrow> dict_del k d = d"
  by (induction d) (auto simp: dict_del_def split: if_splits)

lemma fix_button_canonical: "canonical_button btn \<Longrightarrow> fix_button btn = btn"
  by (simp add: canonical_button_def fix_button_def dict_pop_def dict_has_def)

lemma fix_button_no_callbackData: "map_of (fix_button btn) ''callbackData'' = None"
  by (auto simp: fix_button_def dict_pop_def map_of_dict_del map_of_dict_set Let_def
        split: option.splits)

lemma fix_button_callback:
  "map_of (fix_button btn) ''callback'' = (if both_aliases btn then map_of btn ''callback'' else None)"
  by (auto simp: fix_button_def dict_pop_def map_of_dict_del map_of_dict_set Let_def
        both_aliases_def dict_get_def dict_has_def split: option.splits)

lemma fix_button_idem: "\<not> both_aliases btn \<Longrightarrow> fix_button (fix_button btn) = fix_button btn"
  by (rule fix_button_canonical)
     (simp add: canonical_button_def dict_has_def fix_button_no_callbackData fix_button_callback)

lemma fix_button_not_idem: "both_aliases btn \<Longrightarrow> fix_button (fix_button btn) \<noteq> fix_button btn"
proof
  assume b: "both_aliases btn" and eq: "fix_button (fix_button btn) = fix_button btn"
  have "map_of (fix_button (fix_button btn)) ''callback'' = None"
    by (simp add: fix_button_callback both_aliases_def dict_get_def fix_button_no_callbackData)
  moreover have "map_of (fix_button btn) ''callback'' \<noteq> None"
    using b by (simp add: fix_button_callback) (simp add: both_aliases_def dict_has_def)
  ultimately show False using eq by simp
qed

lemma for_each_map:
  "(\<And>x. x \<in> set xs \<Longrightarrow> body x = Some (Inr (g x))) \<Longrightarrow> for_each body xs = Some (Inr (map g xs))"
  by (induction xs) auto

lemma fix_row_Cons:
  "fix_row btns = Some (Inr fixed) \<Longrightarrow>
     fix_row (JDict btn # btns) = Some (Inr (JDict (fix_button btn) # fixed))"
  by (simp add: fix_row_def dict_of_def and_then_def bind_exc_def)

lemma fix_row_dicts: "fix_row (map JDict ds) = Some (Inr (map (\<lambda>d. JDict (fix_button d)) ds))"
  by (induction ds) (simp_all add: fix_row_Cons, simp add: fix_row_def)

lemma fix_rows_Cons:
  "fix_row btns = Some (Inr fixed_row) \<Longrightarrow> fix_rows rows = Some (Inr fixed) \<Longrightarrow>
     fix_rows (JList btns # rows) = Some (Inr (JList fixed_row # fixed))"
  by (simp add: fix_rows_def py_iter_def and_then_def bind_exc_def)

lemma fix_rows_dicts:
  "fix_rows (map dict_row rs) = Some (Inr (map (\<lambda>ds. dict_row (map fix_button ds)) rs))"
proof (induction rs)
  case Nil
  then show ?case by (simp add: fix_rows_def)
next
  case (Cons ds rs)
  from fix_rows_Cons [OF fix_row_dicts Cons] show ?case
    by (simp add: dict_row_def comp_def)
qed

lemma row_buttons_dict_row: "row_buttons (dict_row ds) = ds"
  by (induction ds) (auto simp: row_buttons_def dict_row_def)

lemma concat_row_buttons: "concat (map (row_buttons \<circ> dict_row) rs) = concat rs"
  by (induction rs) (auto simp: row_buttons_dict_row)

lemma dict_row_inj: "dict_row a = dict_row b \<longleftrightarrow> a = b"
proof -
  have "inj JDict" by (simp add: inj_def)
  then show ?thesis by (simp add: dict_row_def)
qed

lemma fixed_rows_eq:
  "map (\<lambda>ds. dict_row (map fix_button (map fix_button ds))) rs = map (\<lambda>ds. dict_row (map fix_button ds)) rs
     \<longleftrightarrow> list_all (\<lambda>b. \<not> both_aliases b) (concat rs)"
proof (induction rs)
  case Nil
  then show ?case by simp
next
  case (Cons ds rs)
  have "map fix_button (map fix_button ds) = map fix_button ds \<longleftrightarrow> list_all (\<lambda>b. \<not> both_aliases b) ds"
    by (induction ds) (use fix_button_idem fix_button_not_idem in auto)
  with Cons show ?case by (simp add: dict_row_inj)
qed

lemma unchanged_rows:
  "list_all canonical_button (concat rs) \<Longrightarrow> map (\<lambda>ds. dict_row (map fix_button ds)) rs = map dict_row rs"
proof (induction rs)
  case Nil
  then show ?case by simp
next
  case (Cons ds rs)
  have "list_all canonical_button ds \<Longrightarrow> map fix_button ds = ds"
    by (induction ds) (auto simp: fix_button_canonical)
  with Cons show ?case by simp
qed

lemma dict_set_eq_iff: "dict_set k v d = dict_set k w d \<longleftrightarrow> v = w"
proof
  assume "dict_set k v d = dict_set k w d"
  then have "map_of (dict_set k v d) k = map_of (dict_set k w d) k" by simp
  then show "v = w" by (simp add: map_of_dict_set)
qed simp

text \<open>A markup without a keyboard comes back as it is. On a keyboard of the annotated
  shape, rows of button dicts, the method returns the markup with every button fixed.\<close>

lemma fix_reply_markup_no_keyboard:
  "map_of rm ''inline_keyboard'' = None \<Longrightarrow> fix_reply_markup (JDict rm) = Some (Inr (JDict rm))"
  by (simp add: fix_reply_markup_def py_in_def dict_has_def)

lemma fix_reply_markup_rows:
  "map_of rm ''inline_keyboard'' = Some (JList rows) \<Longrightarrow> fix_rows rows = Some (Inr fixed_kb) \<Longrightarrow>
     fix_reply_markup (JDict rm) =
       Some (Inr (JDict (dict_set ''inline_keyboard'' (JList fixed_kb) rm)))"
  by (auto simp: fix_reply_markup_def py_in_def dict_has_def dict_of_def py_iter_def
        and_then_def bind_exc_def)

lemma fix_reply_markup_keyboard:
  "map_of rm ''inline_keyboard'' = Some (JList (map dict_row rs)) \<Longrightarrow>
     fix_reply_markup (JDict rm) =
       Some (Inr (JDict (dict_set ''inline_keyboard''
                           (JList (map (\<lambda>ds. dict_row (map fix_button ds)) rs)) rm)))"
  by (rule fix_reply_markup_rows [OF _ fix_rows_dicts])

text \<open>
  Off that shape the method goes where the builtins lead. A truthy string or list that
  does not hold \<^verbatim>\<open>inline_keyboard\<close> comes back as it is, and one that does fails in
  \<^verbatim>\<open>dict\<close>; a number has no \<^verbatim>\<open>in\<close>. An empty string in place of the keyboard is iterated
  to an empty keyboard, an empty dict in place of a row to an empty row, and a dict with
  a key in place of a row fails in \<^verbatim>\<open>dict\<close> of that key, unless the key is empty. A
  button given as a list of pairs is turned into a dict and fixed; when one of its keys is
  not a string, the result is outside \<open>json\<close>, and a later button can still raise.
\<close>

lemma fix_reply_markup_off_shape:
  "fix_reply_markup (JStr ''x'') = Some (Inr (JStr ''x''))"
  "fix_reply_markup (JList [JInt 1]) = Some (Inr (JList [JInt 1]))"
  "fix_reply_markup (JInt 5) = Some (Inl TypeError)"
  "fix_reply_markup (JStr ''an inline_keyboard'') = Some (Inl ValueError)"
  "fix_reply_markup (JList [JInt 1, JStr ''inline_keyboard'']) = Some (Inl TypeError)"
  "fix_reply_markup (JList [JStr ''ab'', JStr ''inline_keyboard'']) = Some (Inl ValueError)"
  "fix_reply_markup (JDict [(''inline_keyboard'', JStr [])]) =
     Some (Inr (JDict [(''inline_keyboard'', JList [])]))"
  "fix_reply_markup (JDict [(''inline_keyboard'', JNull)]) = Some (Inl TypeError)"
  "fix_reply_markup (JDict [(''inline_keyboard'', JList [JDict []])]) =
     Some (Inr (JDict [(''inline_keyboard'', JList [JList []])]))"
  "fix_reply_markup (JDict [(''inline_keyboard'', JList [JDict [(''a'', JNull)]])]) =
     Some (Inl ValueError)"
  "fix_reply_markup (JDict [(''inline_keyboard'', JList [JDict [([], JNull)]])]) =
     Some (Inr (JDict [(''inline_keyboard'', JList [JList [JDict []]])]))"
  "fix_reply_markup
     (JDict [(''inline_keyboard'',
              JList [JList [JList [JStr ''ab'', JList [JStr ''callback'', JInt 7]]]])]) =
     Some (Inr (JDict [(''inline_keyboard'',
                        JList [JList [JDict [(''a'', JStr ''b''), (''callback_data'', JInt 7)]]])]))"
  "fix_reply_markup (JDict [(''inline_keyboard'', JList [JList [JList [JList [JInt 1, JInt 2]]]])]) =
     None"
  "fix_reply_markup
     (JDict [(''inline_keyboard'', JList [JList [JList [JList [JInt 1, JInt 2]], JInt 3]])]) =
     Some (Inl TypeError)"
  by (simp_all add: fix_reply_markup_def py_in_def dict_has_def dict_of_def py_iter_def
        fix_rows_def fix_row_def and_then_def bind_exc_def pair_of_def hashable_def str_keys_def
        dict_update_def fix_button_def dict_pop_def dict_del_def is_continuation_def)

subsection \<open>Normalizing twice\<close>

text \<open>
  On a keyboard of the annotated shape: a markup whose buttons are all canonical comes
  back equal, and normalizing the result once more gives the same result exactly when no
  button of the markup carries both aliases.
\<close>

lemma fix_reply_markup_twice:
  assumes "map_of rm ''inline_keyboard'' = Some (JList (map dict_row rs))"
  shows "\<exists>fixed. fix_reply_markup (JDict rm) = Some (Inr fixed) \<and>
           (list_all canonical_button (concat rs) \<longrightarrow> fixed = JDict rm) \<and>
           (fix_reply_markup fixed = Some (Inr fixed)
              \<longleftrightarrow> list_all (\<lambda>btn. \<not> both_aliases btn) (concat rs))"
proof -
  define frows where "frows = map (\<lambda>ds. dict_row (map fix_button ds)) rs"
  define fixed where "fixed = JDict (dict_set ''inline_keyboard'' (JList frows) rm)"
  have once: "fix_reply_markup (JDict rm) = Some (Inr fixed)"
    unfolding fixed_def frows_def by (rule fix_reply_markup_keyboard [OF assms])
  have first: "list_all canonical_button (concat rs) \<longrightarrow> fixed = JDict rm"
    using assms by (simp add: fixed_def frows_def unchanged_rows dict_set_same)
  have "map_of (dict_set ''inline_keyboard'' (JList frows) rm) ''inline_keyboard''
          = Some (JList (map dict_row (map (map fix_button) rs)))"
    by (simp add: map_of_dict_set frows_def comp_def)
  from fix_reply_markup_keyboard [OF this]
  have again: "fix_reply_markup fixed =
                 Some (Inr (JDict (dict_set ''inline_keyboard''
                        (JList (map (\<lambda>ds. dict_row (map fix_button (map fix_button ds))) rs)) rm)))"
    by (simp add: fixed_def dict_set_twice comp_def)
  have "fix_reply_markup fixed = Some (Inr fixed) \<longleftrightarrow>
          map (\<lambda>ds. dict_row (map fix_button (map fix_button ds))) rs = frows"
    unfolding again unfolding fixed_def
    by (simp only: option.inject sum.inject json.inject dict_set_eq_iff)
  also have "\<dots> \<longleftrightarrow> list_all (\<lambda>btn. \<not> both_aliases btn) (concat rs)"
    unfolding frows_def by (rule fixed_rows_eq)
  finally show ?thesis
    using once first by blast
qed

text \<open>
  C6 fails on the code. The claim has a second normalization leave the result of the first
  as it is. For the button \<^verbatim>\<open>{"text": "Go", "callbackData": "x", "callback": "y"}\<close> the
  \<^verbatim>\<open>or\<close> stops at \<^verbatim>\<open>callbackData\<close> and never pops \<^verbatim>\<open>callback\<close>: the first pass returns a
  button with \<^verbatim>\<open>callback_data\<close> \<^verbatim>\<open>x\<close> that still carries the alias \<^verbatim>\<open>callback\<close>, and the
  second pass moves that alias over it, so that \<^verbatim>\<open>callback_data\<close> becomes \<^verbatim>\<open>y\<close>.
\<close>

theorem fix_reply_markup_not_idempotent:
  "fix_reply_markup both_alias_markup = Some (Inr once_fixed) \<and>
   fix_reply_markup once_fixed = Some (Inr twice_fixed) \<and>
   once_fixed \<noteq> twice_fixed \<and>
   dict_has ''callback'' (hd (buttons_of once_fixed))"
  by (simp add: both_alias_markup_def once_fixed_def twice_fixed_def fix_reply_markup_def
        py_in_def dict_has_def dict_of_def py_iter_def fix_rows_def fix_row_def and_then_def
        bind_exc_def fix_button_def dict_pop_def dict_del_def buttons_of_def row_buttons_def
        dict_get_def)

subsection \<open>Where normalization runs\<close>

text \<open>
  C7 fails on the code: the JSON mode of \<^verbatim>\<open>_send_file\<close> passes the markup through
  \<^verbatim>\<open>_fix_reply_markup\<close>, the multipart mode serializes the caller's markup as it is.
  For a photo sent as raw bytes with a keyboard whose button uses \<^verbatim>\<open>callbackData\<close>, the
  \<^verbatim>\<open>reply_markup\<close> part of the body is \<^verbatim>\<open>json.dumps\<close> of the markup with the alias still
  in it; the same options with a URL are sent normalized.
\<close>

theorem multipart_mode_skips_normalization:
  "send_photo rt self chat_id (Raw_bytes file_bytes) (Some [(''reply_markup'', alias_markup)]) =
     Some (api_call rt self ''sendPhoto''
             (''multipart/form-data; boundary=----BotBoundary'' @ token_hex rt)
             (fst (build_multipart rt
                     [(''chat_id'', py_str rt chat_id), (''reply_markup'', dumps rt alias_markup)]
                     ''photo'' ''photo.jpg'' file_bytes ''image/jpeg''))) \<and>
   send_photo rt self chat_id (File_ref url) (Some [(''reply_markup'', alias_markup)]) =
     Some (post_json rt self ''sendPhoto''
             (JDict [(''chat_id'', chat_id), (''photo'', JStr url),
                     (''reply_markup'', canonical_markup)])) \<and>
   alias_markup \<noteq> canonical_markup"
  by (simp add: send_photo_def send_file_def Let_def is_dict_def alias_markup_def
        canonical_markup_def dict_get_def build_multipart_def py_str_def merge_options_def
        dict_has_def dict_pop_def dict_del_def bind_exc_def fix_button_def dict_update_def
        fix_reply_markup_def py_in_def dict_of_def py_iter_def fix_rows_def fix_row_def
        and_then_def)

text \<open>\<^verbatim>\<open>send_message\<close> and \<^verbatim>\<open>edit_message_text\<close> normalize the same options;
  \<^verbatim>\<open>send_poll\<close> merges them as they are.\<close>

lemma json_senders_normalize:
  "send_message rt self chat_id txt (Some [(''reply_markup'', alias_markup)]) =
     Some (post_json rt self ''sendMessage''
             (JDict [(''chat_id'', chat_id), (''text'', JStr txt),
                     (''reply_markup'', canonical_markup)]))"
  "edit_message_text rt self txt (Some [(''reply_markup'', alias_markup)]) =
     Some (post_json rt self ''editMessageText''
             (JDict [(''text'', JStr txt), (''reply_markup'', canonical_markup)]))"
  "send_poll rt self chat_id question [] (Some [(''reply_markup'', alias_markup)]) =
     post_json rt self ''sendPoll''
       (JDict [(''chat_id'', chat_id), (''question'', JStr question), (''options'', JList []),
               (''reply_markup'', alias_markup)])"
  by (simp_all add: send_message_def edit_message_text_def send_poll_def merge_options_def
        alias_markup_def canonical_markup_def dict_has_def dict_get_def dict_pop_def
        dict_del_def bind_exc_def fix_button_def dict_update_def Let_def
        fix_reply_markup_def py_in_def dict_of_def py_iter_def fix_rows_def fix_row_def
        and_then_def)

subsection \<open>The caller's objects\<close>

lemma pop_key_fresh:
  "\<exists>v d'. pop_key (h @ [Dict_obj d]) (length h) k = (v, h @ [Dict_obj d'])"
  by (simp add: pop_key_def heap_get_def split: option.splits)

lemma set_key_fresh:
  "\<exists>d'. set_key (h @ [Dict_obj d]) (length h) k v = h @ [Dict_obj d']"
  by (simp add: set_key_def heap_get_def)

lemma copy_button_result:
  assumes "copy_button h btn = (r, h')"
  shows "(\<exists>e. r = Inl e \<and> h' = h) \<or> (\<exists>d. r = Inr (length h) \<and> h' = h @ [Dict_obj d])"
proof (cases "\<exists>b d. btn = VRef b \<and> heap_get h b = Some (Dict_obj d)")
  case False
  then show ?thesis
    using assms by (auto simp: copy_button_def split: val.splits option.splits obj.splits)
next
  case True
  then obtain b d where b: "btn = VRef b" "heap_get h b = Some (Dict_obj d)"
    by blast
  obtain v1 d1 where p1: "pop_key (h @ [Dict_obj d]) (length h) ''callbackData'' = (v1, h @ [Dict_obj d1])"
    using pop_key_fresh by blast
  obtain v2 d2 where p2: "pop_key (h @ [Dict_obj d1]) (length h) ''callback'' = (v2, h @ [Dict_obj d2])"
    using pop_key_fresh by blast
  obtain cb d3 where c: "(if truthy_at (h @ [Dict_obj d1]) v1 then (v1, h @ [Dict_obj d1])
                           else pop_key (h @ [Dict_obj d1]) (length h) ''callback'')
                          = (cb, h @ [Dict_obj d3])"
    using p2 by (cases "truthy_at (h @ [Dict_obj d1]) v1") auto
  obtain d4 where s: "set_key (h @ [Dict_obj d3]) (length h) ''callback_data'' cb = h @ [Dict_obj d4]"
    using set_key_fresh by blast
  have "copy_button h btn =
          (Inr (length h), if cb \<noteq> VNone then h @ [Dict_obj d4] else h @ [Dict_obj d3])"
    by (simp add: copy_button_def b p1 c s Let_def)
  with assms show ?thesis by (cases "cb = VNone") auto
qed

lemma fresh_dict_mono: "fresh_dict n h v \<Longrightarrow> m \<le> n \<Longrightarrow> fresh_dict m h v"
  by (auto simp: fresh_dict_def split: val.splits)

lemma fresh_row_mono: "fresh_row n h v \<Longrightarrow> m \<le> n \<Longrightarrow> fresh_row m h v"
  by (auto simp: fresh_row_def list_all_iff split: val.splits option.splits obj.splits
        intro: fresh_dict_mono)

lemma fresh_dict_kept:
  "fresh_dict n h v \<Longrightarrow> touches_only k h h' \<Longrightarrow> k < n \<Longrightarrow> fresh_dict n h' v"
  by (auto simp: fresh_dict_def touches_only_def heap_get_def
        split: val.splits option.splits obj.splits if_splits)

lemma fresh_row_kept:
  "fresh_row n h v \<Longrightarrow> touches_only k h h' \<Longrightarrow> k < n \<Longrightarrow> fresh_row n h' v"
proof -
  assume f: "fresh_row n h v" and t: "touches_only k h h'" and k: "k < n"
  from f obtain r btns where v: "v = VRef r" "n \<le> r" "heap_get h r = Some (List_obj btns)"
      "list_all (fresh_dict n h) btns"
    by (auto simp: fresh_row_def split: val.splits option.splits obj.splits)
  have "heap_get h' r = Some (List_obj btns)"
    using v(2,3) t k by (auto simp: heap_get_def touches_only_def split: if_splits)
  moreover have "list_all (fresh_dict n h') btns"
    using v(4) fresh_dict_kept [OF _ t k] by (auto simp: list_all_iff)
  ultimately show ?thesis
    using v(1,2) by (simp add: fresh_row_def)
qed

lemma touches_only_trans:
  "touches_only k h h1 \<Longrightarrow> touches_only k h1 h2 \<Longrightarrow> touches_only k h h2"
  by (auto simp: touches_only_def)

lemma append_to_list:
  "a < length h \<Longrightarrow> h ! a = List_obj xs \<Longrightarrow> append_to h a v = h[a := List_obj (xs @ [v])]"
  by (simp add: append_to_def heap_get_def)

lemma fill_row_spec:
  assumes "fill_row h fr btns = (r, h')" "fr < length h" "h ! fr = List_obj xs"
  shows "touches_only fr h h' \<and>
         (\<exists>ys. h' ! fr = List_obj (xs @ ys) \<and> list_all (fresh_dict (length h) h') ys)"
  using assms
proof (induction btns arbitrary: h xs)
  case Nil
  then show ?case by (simp add: touches_only_def)
next
  case (Cons btn btns)
  obtain r1 h1 where cp: "copy_button h btn = (r1, h1)"
    by (cases "copy_button h btn")
  from copy_button_result [OF cp] show ?case
  proof
    assume "\<exists>e. r1 = Inl e \<and> h1 = h"
    then show ?thesis
      using Cons.prems cp by (auto simp: touches_only_def)
  next
    assume "\<exists>d. r1 = Inr (length h) \<and> h1 = h @ [Dict_obj d]"
    then obtain d where r1: "r1 = Inr (length h)" and h1: "h1 = h @ [Dict_obj d]"
      by blast
    define h2 where "h2 = h1[fr := List_obj (xs @ [VRef (length h)])]"
    have ap: "append_to h1 fr (VRef (length h)) = h2"
      using Cons.prems(2,3) by (simp add: h2_def h1 append_to_list nth_append)
    have rest: "fill_row h2 fr btns = (r, h')"
      using Cons.prems(1) cp r1 ap by simp
    have fr2: "fr < length h2" "h2 ! fr = List_obj (xs @ [VRef (length h)])"
      using Cons.prems(2) by (simp_all add: h2_def h1)
    from Cons.IH [OF rest fr2] obtain ys where
        t2: "touches_only fr h2 h'" and
        at: "h' ! fr = List_obj ((xs @ [VRef (length h)]) @ ys)" and
        fresh: "list_all (fresh_dict (length h2) h') ys"
      by blast
    have t: "touches_only fr h h'"
      using t2 Cons.prems(2) by (auto simp: touches_only_def h2_def h1 nth_append)
    have new: "h' ! length h = Dict_obj d"
      using t2 Cons.prems(2) by (auto simp: touches_only_def h2_def h1 nth_append)
    have "length h < length h'"
      using t2 by (simp add: touches_only_def h2_def h1)
    with new have first: "fresh_dict (length h) h' (VRef (length h))"
      by (simp add: fresh_dict_def heap_get_def)
    have others: "list_all (fresh_dict (length h) h') ys"
      using fresh by (auto simp: list_all_iff h2_def h1 intro: fresh_dict_mono)
    show ?thesis
      using t at first others by auto
  qed
qed

lemma fill_keyboard_spec:
  assumes "fill_keyboard h k rows = (r, h')" "k < length h" "h ! k = List_obj xs"
  shows "touches_only k h h' \<and>
         (\<exists>ys. h' ! k = List_obj (xs @ ys) \<and> list_all (fresh_row (length h) h') ys)"
  using assms
proof (induction rows arbitrary: h xs)
  case Nil
  then show ?case by (simp add: touches_only_def)
next
  case (Cons row rows)
  define h1 where "h1 = h @ [List_obj []]"
  show ?case
  proof (cases "\<exists>a btns. row = VRef a \<and> heap_get h1 a = Some (List_obj btns)")
    case False
    then have "h' = h1"
      using Cons.prems(1)
      by (auto simp: h1_def Let_def split: val.splits option.splits obj.splits)
    then show ?thesis
      by (auto simp: h1_def touches_only_def nth_append Cons.prems(2,3))
  next
    case True
    then obtain a btns where row: "row = VRef a" "heap_get h1 a = Some (List_obj btns)"
      by blast
    obtain r2 h2 where fr: "fill_row h1 (length h) btns = (r2, h2)"
      by (cases "fill_row h1 (length h) btns")
    have "length h < length h1" "h1 ! length h = List_obj []"
      by (simp_all add: h1_def)
    from fill_row_spec [OF fr this] obtain bs where
        t12: "touches_only (length h) h1 h2" and
        row2: "h2 ! length h = List_obj bs" and
        bs: "list_all (fresh_dict (length h1) h2) bs"
      by auto
    have k2: "k < length h2" "h2 ! k = List_obj xs"
      using t12 Cons.prems(2,3) by (auto simp: touches_only_def h1_def nth_append)
    have t02: "touches_only k h h2"
      using t12 Cons.prems(2) by (auto simp: touches_only_def h1_def nth_append)
    show ?thesis
    proof (cases r2)
      case (Inl e)
      then have "h' = h2"
        using Cons.prems(1) row fr by (simp add: h1_def Let_def)
      then show ?thesis
        using t02 k2 by auto
    next
      case (Inr u)
      define h3 where "h3 = h2[k := List_obj (xs @ [VRef (length h)])]"
      have ap: "append_to h2 k (VRef (length h)) = h3"
        using k2 by (simp add: h3_def append_to_list)
      have rest: "fill_keyboard h3 k rows = (r, h')"
        using Cons.prems(1) row fr Inr ap by (simp add: h1_def Let_def)
      have k3: "k < length h3" "h3 ! k = List_obj (xs @ [VRef (length h)])"
        using k2(1) by (simp_all add: h3_def)
      from Cons.IH [OF rest k3] obtain ys where
          t3: "touches_only k h3 h'" and
          at: "h' ! k = List_obj ((xs @ [VRef (length h)]) @ ys)" and
          fresh: "list_all (fresh_row (length h3) h') ys"
        by blast
      have t23: "touches_only k h2 h3"
        by (simp add: touches_only_def h3_def)
      have t2: "touches_only k h2 h'"
        using t23 t3 by (rule touches_only_trans)
      have t: "touches_only k h h'"
        using t02 t2 by (rule touches_only_trans)
      have len: "length h < length h2"
        using t12 by (simp add: touches_only_def h1_def)
      have "list_all (fresh_dict (length h) h2) bs"
        using bs by (auto simp: list_all_iff h1_def intro: fresh_dict_mono)
      then have "fresh_row (length h) h2 (VRef (length h))"
        using row2 len by (simp add: fresh_row_def heap_get_def)
      then have first: "fresh_row (length h) h' (VRef (length h))"
        using t2 Cons.prems(2) by (rule fresh_row_kept)
      have "length h \<le> length h3"
        using len by (simp add: h3_def)
      then have others: "list_all (fresh_row (length h) h') ys"
        using fresh by (auto simp: list_all_iff intro: fresh_row_mono)
      show ?thesis
        using t at first others by auto
    qed
  qed
qed

text \<open>
  C10. \<^verbatim>\<open>_fix_reply_markup\<close> leaves every object that existed before the call as it was:
  the old heap is a prefix of the new one, also when the method raises. A falsy argument
  and a dict without \<^verbatim>\<open>inline_keyboard\<close> are returned as they are and nothing is
  allocated. Otherwise, when the method returns, the result is a new top-level dict whose
  keyboard list, row lists and button dicts are all new objects.
\<close>

theorem fix_reply_markup_heap_frame:
  assumes "fix_reply_markup_heap h reply_markup = (result, h')"
  shows "take (length h) h' = h \<and>
         (\<not> truthy_at h reply_markup \<or> lacks_keyboard h reply_markup
            \<longrightarrow> result = Inr reply_markup \<and> h' = h) \<and>
         (\<forall>fixed. result = Inr fixed \<and> truthy_at h reply_markup
                    \<and> \<not> lacks_keyboard h reply_markup
            \<longrightarrow> fresh_markup (length h) h' fixed)"
proof (cases "\<exists>a d kb k rows. reply_markup = VRef a \<and> heap_get h a = Some (Dict_obj d) \<and> d \<noteq> []
                  \<and> map_of d ''inline_keyboard'' = Some (VRef k)
                  \<and> heap_get (h @ [Dict_obj d, List_obj []]) k = Some (List_obj rows)")
  case False
  then have "h' = h \<or> (\<exists>e d. result = Inl e \<and> h' = h @ [Dict_obj d, List_obj []])"
    using assms
    by (auto simp: fix_reply_markup_heap_def Let_def truthy_at_def
          split: if_splits val.splits option.splits obj.splits)
  moreover have "\<not> truthy_at h reply_markup \<or> lacks_keyboard h reply_markup
                   \<Longrightarrow> result = Inr reply_markup \<and> h' = h"
    using assms
    by (auto simp: fix_reply_markup_heap_def lacks_keyboard_def
          split: if_splits val.splits option.splits obj.splits)
  moreover have "result = Inr fixed \<Longrightarrow> truthy_at h reply_markup
                   \<Longrightarrow> \<not> lacks_keyboard h reply_markup \<Longrightarrow> False" for fixed
    using assms False
    by (auto simp: fix_reply_markup_heap_def lacks_keyboard_def Let_def truthy_at_def
          split: if_splits val.splits option.splits obj.splits)
  ultimately show ?thesis by auto
next
  case True
  then obtain a d k rows where
      m: "reply_markup = VRef a" "heap_get h a = Some (Dict_obj d)" "d \<noteq> []"
         "map_of d ''inline_keyboard'' = Some (VRef k)" and
      kb: "heap_get (h @ [Dict_obj d, List_obj []]) k = Some (List_obj rows)"
    by blast
  define h2 where "h2 = h @ [Dict_obj d, List_obj []]"
  obtain r3 h3 where fk: "fill_keyboard h2 (Suc (length h)) rows = (r3, h3)"
    by (cases "fill_keyboard h2 (Suc (length h)) rows")
  have "Suc (length h) < length h2" "h2 ! Suc (length h) = List_obj []"
    by (simp_all add: h2_def nth_append)
  from fill_keyboard_spec [OF fk this] obtain ys where
      t: "touches_only (Suc (length h)) h2 h3" and
      at: "h3 ! Suc (length h) = List_obj ys" and
      fresh: "list_all (fresh_row (length h2) h3) ys"
    by auto
  have tr: "truthy_at h reply_markup" and has: "\<not> lacks_keyboard h reply_markup"
    using m by (simp_all add: truthy_at_def lacks_keyboard_def)
  have top: "h3 ! length h = Dict_obj d" and len3: "length h2 \<le> length h3"
    using t by (auto simp: touches_only_def h2_def nth_append)
  have old3: "a < length h \<Longrightarrow> h3 ! a = h ! a" for a
    using t by (auto simp: touches_only_def h2_def nth_append)
  define h4 where "h4 = h3[length h := Dict_obj (dict_set ''inline_keyboard'' (VRef (Suc (length h))) d)]"
  have sk: "set_key h3 (length h) ''inline_keyboard'' (VRef (Suc (length h))) = h4"
    using top len3 by (simp add: set_key_def heap_get_def h4_def h2_def)
  have run: "(result, h') = (case r3 of Inl e \<Rightarrow> (Inl e, h3) | Inr u \<Rightarrow> (Inr (VRef (length h)), h4))"
    using assms m kb fk tr sk
    by (simp add: fix_reply_markup_heap_def Let_def h2_def split: sum.splits)
  have t4: "touches_only (length h) h3 h4"
    by (simp add: touches_only_def h4_def)
  have frame3: "take (length h) h3 = h"
    using old3 len3 by (auto simp: list_eq_iff_nth_eq h2_def)
  have frame4: "take (length h) h4 = h"
    using frame3 by (simp add: h4_def)
  have frame: "take (length h) h' = h"
    using run frame3 frame4 by (cases r3) auto
  have built: "fresh_markup (length h) h' fixed" if "result = Inr fixed" for fixed
  proof -
    from that run obtain u where r3: "r3 = Inr u" and fx: "fixed = VRef (length h)" and h': "h' = h4"
      by (cases r3) auto
    have "list_all (fresh_row (length h2) h4) ys"
      using fresh fresh_row_kept [OF _ t4] by (auto simp: list_all_iff h2_def)
    then have rows4: "list_all (fresh_row (length h) h4) ys"
      by (auto simp: list_all_iff h2_def intro: fresh_row_mono)
    have k4: "h4 ! Suc (length h) = List_obj ys"
      using at by (simp add: h4_def)
    have top4: "h4 ! length h = Dict_obj (dict_set ''inline_keyboard'' (VRef (Suc (length h))) d)"
      using len3 by (simp add: h4_def h2_def)
    have "length h4 = length h3"
      by (simp add: h4_def)
    then show ?thesis
      using rows4 k4 top4 len3
      by (simp add: fresh_markup_def fx h' heap_get_def h2_def map_of_dict_set)
  qed
  show ?thesis
    using frame tr has built by auto
qed

theorem fix_reply_markup_heap_frame_witness:
  "fix_reply_markup_heap sample_heap (VRef 0) = (Inr (VRef 4), sample_heap_after) \<and>
   truthy_at sample_heap (VRef 0) \<and> \<not> lacks_keyboard sample_heap (VRef 0) \<and>
   take (length sample_heap) sample_heap_after = sample_heap \<and>
   fresh_markup (length sample_heap) sample_heap_after (VRef 4) \<and>
   \<not> truthy_at sample_heap VNone \<and>
   fix_reply_markup_heap sample_heap VNone = (Inr VNone, sample_heap)"
proof -
  have run: "fix_reply_markup_heap sample_heap (VRef 0) = (Inr (VRef 4), sample_heap_after)"
    by code_simp
  have as_is: "fix_reply_markup_heap sample_heap VNone = (Inr VNone, sample_heap)"
    by code_simp
  have t: "truthy_at sample_heap (VRef 0)" "\<not> lacks_keyboard sample_heap (VRef 0)"
      "\<not> truthy_at sample_heap VNone"
    by code_simp+
  show ?thesis
    using fix_reply_markup_heap_frame [OF run] fix_reply_markup_heap_frame [OF as_is] run as_is t
    by simp
qed

subsection \<open>The two models agree\<close>

text \<open>
  On markups of the annotated shape the method on the heap and the method on values are
  the same function: on a markup that reads back as the value \<open>j\<close>, the heap version
  returns, and what it returns reads back as the result of the value version on \<open>j\<close>.
\<close>

lemma atom_truthy: "atom v = Some j \<Longrightarrow> truthy_at h v = truthy j"
  by (cases v) (auto simp: truthy_at_def)

lemma atom_null: "atom v = Some j \<Longrightarrow> (v = VNone) = (j = JNull)"
  by (cases v) auto

lemma read_dict_map_of:
  "read_dict d = Some b \<Longrightarrow> map_of b k = (case map_of d k of None \<Rightarrow> None | Some v \<Rightarrow> atom v)"
proof (induction d arbitrary: b)
  case Nil
  then show ?case by (simp add: read_dict_def)
next
  case (Cons p d)
  then show ?case
    by (cases p) (auto simp: read_dict_def split: if_splits)
qed

lemma read_dict_del:
  "read_dict d = Some b \<Longrightarrow> read_dict (filter (\<lambda>p. fst p \<noteq> k) d) = Some (dict_del k b)"
  by (auto simp: read_dict_def dict_del_def list_all_iff filter_map comp_def split: if_splits)

lemma read_dict_set:
  "read_dict d = Some b \<Longrightarrow> atom v = Some j \<Longrightarrow> read_dict (dict_set k v d) = Some (dict_set k j b)"
proof (induction d arbitrary: b)
  case Nil
  then show ?case by (simp add: read_dict_def)
next
  case (Cons p d)
  then show ?case
    by (cases p) (auto simp: read_dict_def split: if_splits)
qed

lemma pop_key_reads:
  assumes "read_dict d = Some b"
  shows "\<exists>v d'. pop_key (h @ [Dict_obj d]) (length h) k = (v, h @ [Dict_obj d']) \<and>
                 read_dict d' = Some (snd (dict_pop k b)) \<and> atom v = Some (fst (dict_pop k b))"
proof (cases "map_of d k")
  case None
  then show ?thesis
    using assms read_dict_map_of [OF assms, of k]
    by (simp add: pop_key_def heap_get_def dict_pop_def)
next
  case (Some v)
  then have "(k, v) \<in> set d" by (rule map_of_SomeD)
  then have "atom v \<noteq> None"
    using assms by (auto simp: read_dict_def list_all_iff split: if_splits)
  then obtain j where j: "atom v = Some j" by blast
  show ?thesis
    using Some j read_dict_map_of [OF assms, of k] read_dict_del [OF assms, of k]
    by (simp add: pop_key_def heap_get_def dict_pop_def)
qed

lemma copy_button_reads:
  assumes "heap_get h c = Some (Dict_obj d)" "read_dict d = Some b"
  shows "\<exists>d'. copy_button h (VRef c) = (Inr (length h), h @ [Dict_obj d']) \<and>
              read_dict d' = Some (fix_button b)"
proof -
  obtain v1 d1 where p1: "pop_key (h @ [Dict_obj d]) (length h) ''callbackData'' = (v1, h @ [Dict_obj d1])"
      and r1: "read_dict d1 = Some (snd (dict_pop ''callbackData'' b))"
      and a1: "atom v1 = Some (fst (dict_pop ''callbackData'' b))"
    using pop_key_reads [OF assms(2)] by blast
  obtain v2 d2 where p2: "pop_key (h @ [Dict_obj d1]) (length h) ''callback'' = (v2, h @ [Dict_obj d2])"
      and r2: "read_dict d2 = Some (snd (dict_pop ''callback'' (snd (dict_pop ''callbackData'' b))))"
      and a2: "atom v2 = Some (fst (dict_pop ''callback'' (snd (dict_pop ''callbackData'' b))))"
    using pop_key_reads [OF r1] by blast
  obtain j1 c1 where b1: "dict_pop ''callbackData'' b = (j1, c1)"
    by (cases "dict_pop ''callbackData'' b")
  obtain j2 c2 where b2: "dict_pop ''callback'' c1 = (j2, c2)"
    by (cases "dict_pop ''callback'' c1")
  have t: "truthy_at (h @ [Dict_obj d1]) v1 = truthy j1"
    using a1 b1 by (simp add: atom_truthy)
  show ?thesis
  proof (cases "truthy j1")
    case True
    then have nn: "v1 \<noteq> VNone" "j1 \<noteq> JNull"
      using a1 b1 by (cases v1; auto)+
    have "read_dict (dict_set ''callback_data'' v1 d1) = Some (dict_set ''callback_data'' j1 c1)"
      using read_dict_set [OF r1 a1] b1 by simp
    then show ?thesis
      using True t nn p1 b1 assms(1)
      by (simp add: copy_button_def fix_button_def Let_def set_key_def heap_get_def)
  next
    case False
    have n: "(v2 = VNone) = (j2 = JNull)"
      using a2 b1 b2 by (simp add: atom_null)
    have "read_dict (dict_set ''callback_data'' v2 d2) = Some (dict_set ''callback_data'' j2 c2)"
      using read_dict_set [OF r2 a2] b1 b2 by simp
    then show ?thesis
      using False t n p1 p2 b1 b2 r2 assms(1)
      by (auto simp: copy_button_def fix_button_def Let_def set_key_def heap_get_def)
  qed
qed

lemma extends_get: "extends h h' \<Longrightarrow> heap_get h a = Some x \<Longrightarrow> heap_get h' a = Some x"
  by (auto simp: extends_def heap_get_def split: if_splits)

lemma read_all_mono:
  "read_all f vs = Some js \<Longrightarrow> (\<And>x y. f x = Some y \<Longrightarrow> g x = Some y) \<Longrightarrow> read_all g vs = Some js"
  by (induction vs arbitrary: js) (auto simp: read_all_def split: if_splits)

lemma read_list_kept:
  assumes "read_list f h v = Some j" "extends h h'" "\<And>x y. f x = Some y \<Longrightarrow> g x = Some y"
  shows "read_list g h' v = Some j"
proof -
  from assms(1) obtain a vs js where v: "v = VRef a" "heap_get h a = Some (List_obj vs)"
      "read_all f vs = Some js" "j = JList js"
    by (auto simp: read_list_def split: val.splits option.splits obj.splits)
  have "read_all g vs = Some js"
    using v(3) assms(3) by (rule read_all_mono)
  then show ?thesis
    using v extends_get [OF assms(2) v(2)] by (simp add: read_list_def)
qed

lemma read_button_kept: "read_button h v = Some j \<Longrightarrow> extends h h' \<Longrightarrow> read_button h' v = Some j"
  by (auto simp: read_button_def split: val.splits option.splits obj.splits dest: extends_get)

lemma read_row_kept: "read_row h v = Some j \<Longrightarrow> extends h h' \<Longrightarrow> read_row h' v = Some j"
  unfolding read_row_def by (erule read_list_kept) (auto intro: read_button_kept)

lemma read_keyboard_kept: "read_keyboard h v = Some j \<Longrightarrow> extends h h' \<Longrightarrow> read_keyboard h' v = Some j"
  unfolding read_keyboard_def by (erule read_list_kept) (auto intro: read_row_kept)

lemma fresh_button_read:
  "fresh_dict n h v \<Longrightarrow> touches_only k h h' \<Longrightarrow> k < n \<Longrightarrow> read_button h' v = read_button h v"
  by (auto simp: fresh_dict_def touches_only_def read_button_def heap_get_def
        split: val.splits option.splits obj.splits if_splits)

lemma fresh_row_read:
  assumes "fresh_row n h v" "touches_only k h h'" "k < n"
  shows "read_row h' v = read_row h v"
proof -
  from assms(1) obtain r btns where v: "v = VRef r" "n \<le> r" "heap_get h r = Some (List_obj btns)"
      "list_all (fresh_dict n h) btns"
    by (auto simp: fresh_row_def split: val.splits option.splits obj.splits)
  have g: "heap_get h' r = Some (List_obj btns)"
    using v(2,3) assms(2,3) by (auto simp: heap_get_def touches_only_def split: if_splits)
  have "\<forall>b \<in> set btns. read_button h' b = read_button h b"
    using v(4) fresh_button_read [OF _ assms(2,3)] by (auto simp: list_all_iff)
  then have "read_all (read_button h') btns = read_all (read_button h) btns"
    by (auto simp: read_all_def list_all_iff)
  then show ?thesis
    using v(1,3) g by (simp add: read_row_def read_list_def)
qed

lemma read_all_Cons:
  "read_all f (v # vs) = Some js \<longleftrightarrow>
     (\<exists>j js0. f v = Some j \<and> read_all f vs = Some js0 \<and> js = j # js0)"
  by (auto simp: read_all_def)

lemma fill_row_reads:
  assumes "extends h0 h" "fr < length h" "length h0 \<le> fr" "h ! fr = List_obj xs"
    and "read_all (read_button h0) btns = Some js"
  shows "\<exists>h' ys js'. fill_row h fr btns = (Inr (), h') \<and> h' ! fr = List_obj (xs @ ys) \<and>
           fix_row js = Some (Inr js') \<and> read_all (read_button h') ys = Some js'"
  using assms
proof (induction btns arbitrary: h xs js)
  case Nil
  then show ?case by (simp add: read_all_def fix_row_def)
next
  case (Cons btn btns)
  from Cons.prems(5) obtain j js0 where
      j: "read_button h0 btn = Some j" and js0: "read_all (read_button h0) btns = Some js0"
      and js: "js = j # js0"
    by (auto simp: read_all_Cons)
  from j obtain c d b where btn: "btn = VRef c" and c: "heap_get h0 c = Some (Dict_obj d)"
      and d: "read_dict d = Some b" and jb: "j = JDict b"
    by (auto simp: read_button_def split: val.splits option.splits obj.splits)
  have "heap_get h c = Some (Dict_obj d)"
    using Cons.prems(1) c by (rule extends_get)
  from copy_button_reads [OF this d] obtain d' where
      cp: "copy_button h (VRef c) = (Inr (length h), h @ [Dict_obj d'])" and
      d': "read_dict d' = Some (fix_button b)"
    by blast
  define h2 where "h2 = (h @ [Dict_obj d'])[fr := List_obj (xs @ [VRef (length h)])]"
  have ap: "append_to (h @ [Dict_obj d']) fr (VRef (length h)) = h2"
    using Cons.prems(2,4) by (simp add: h2_def append_to_list nth_append)
  have ext2: "extends h0 h2"
    using Cons.prems(1,2,3)
    by (auto simp: extends_def heap_get_def h2_def nth_append nth_list_update)
  have fr2: "fr < length h2" "h2 ! fr = List_obj (xs @ [VRef (length h)])"
    using Cons.prems(2) by (simp_all add: h2_def)
  from Cons.IH [OF ext2 fr2(1) Cons.prems(3) fr2(2) js0] obtain h' ys js' where
      rest: "fill_row h2 fr btns = (Inr (), h')" and
      at: "h' ! fr = List_obj ((xs @ [VRef (length h)]) @ ys)" and
      fx: "fix_row js0 = Some (Inr js')" and
      rd: "read_all (read_button h') ys = Some js'"
    by blast
  from fill_row_spec [OF rest fr2] have t: "touches_only fr h2 h'"
    by blast
  have "h' ! length h = Dict_obj d'" "length h < length h'"
    using t Cons.prems(2) by (auto simp: touches_only_def h2_def nth_append)
  then have first: "read_button h' (VRef (length h)) = Some (JDict (fix_button b))"
    using d' by (simp add: read_button_def heap_get_def)
  have run: "fill_row h fr (btn # btns) = (Inr (), h')"
    using cp ap rest btn by simp
  have "fix_row js = Some (Inr (JDict (fix_button b) # js'))"
    using fx js jb by (simp add: fix_row_Cons)
  moreover have "read_all (read_button h') (VRef (length h) # ys) = Some (JDict (fix_button b) # js')"
    using first rd by (simp add: read_all_Cons)
  ultimately show ?case
    using run at by (intro exI [where x = h'] exI [where x = "VRef (length h) # ys"]) auto
qed

lemma fill_keyboard_reads:
  assumes "extends h0 h" "k < length h" "length h0 \<le> k" "h ! k = List_obj xs"
    and "read_all (read_row h0) rows = Some js"
  shows "\<exists>h' ys js'. fill_keyboard h k rows = (Inr (), h') \<and> h' ! k = List_obj (xs @ ys) \<and>
           fix_rows js = Some (Inr js') \<and> read_all (read_row h') ys = Some js'"
  using assms
proof (induction rows arbitrary: h xs js)
  case Nil
  then show ?case by (simp add: read_all_def fix_rows_def)
next
  case (Cons row rows)
  from Cons.prems(5) obtain j js0 where
      j: "read_row h0 row = Some j" and js0: "read_all (read_row h0) rows = Some js0"
      and js: "js = j # js0"
    by (auto simp: read_all_Cons)
  from j obtain r btns bjs where row: "row = VRef r" and r: "heap_get h0 r = Some (List_obj btns)"
      and btns: "read_all (read_button h0) btns = Some bjs" and jb: "j = JList bjs"
    by (auto simp: read_row_def read_list_def split: val.splits option.splits obj.splits)
  define h1 where "h1 = h @ [List_obj []]"
  have ext1: "extends h0 h1"
    using Cons.prems(1,2,3) by (auto simp: extends_def heap_get_def h1_def nth_append)
  have r1: "heap_get h1 r = Some (List_obj btns)"
    using ext1 r by (rule extends_get)
  have fr1: "length h < length h1" "length h0 \<le> length h" "h1 ! length h = List_obj []"
    using Cons.prems(2,3) by (simp_all add: h1_def)
  from fill_row_reads [OF ext1 fr1 btns] obtain h2 bs bjs' where
      frow: "fill_row h1 (length h) btns = (Inr (), h2)" and
      row2: "h2 ! length h = List_obj bs" and
      fxr: "fix_row bjs = Some (Inr bjs')" and
      rdb: "read_all (read_button h2) bs = Some bjs'"
    by auto
  from fill_row_spec [OF frow fr1(1,3)] have
      t12: "touches_only (length h) h1 h2" and
      fresh_bs: "list_all (fresh_dict (length h1) h2) bs"
    using row2 by auto
  have len2: "length h < length h2"
    using t12 by (simp add: touches_only_def h1_def)
  have k2: "k < length h2" "h2 ! k = List_obj xs"
    using t12 Cons.prems(2,4) by (auto simp: touches_only_def h1_def nth_append)
  define h3 where "h3 = h2[k := List_obj (xs @ [VRef (length h)])]"
  have ap: "append_to h2 k (VRef (length h)) = h3"
    using k2 by (simp add: h3_def append_to_list)
  have ext3: "extends h0 h3"
    using ext1 t12 Cons.prems(2,3)
    by (auto simp: extends_def heap_get_def touches_only_def h3_def h1_def nth_list_update)
  have k3: "k < length h3" "h3 ! k = List_obj (xs @ [VRef (length h)])"
    using k2(1) by (simp_all add: h3_def)
  from Cons.IH [OF ext3 k3(1) Cons.prems(3) k3(2) js0] obtain h' ys js' where
      rest: "fill_keyboard h3 k rows = (Inr (), h')" and
      at: "h' ! k = List_obj ((xs @ [VRef (length h)]) @ ys)" and
      fx: "fix_rows js0 = Some (Inr js')" and
      rd: "read_all (read_row h') ys = Some js'"
    by blast
  from fill_keyboard_spec [OF rest k3] have t3: "touches_only k h3 h'"
    by blast
  have "touches_only k h2 h3"
    by (simp add: touches_only_def h3_def)
  then have t2: "touches_only k h2 h'"
    using t3 by (rule touches_only_trans)
  have "list_all (fresh_dict (length h) h2) bs"
    using fresh_bs by (auto simp: list_all_iff h1_def intro: fresh_dict_mono)
  then have fr_row: "fresh_row (length h) h2 (VRef (length h))"
    using row2 len2 by (simp add: fresh_row_def heap_get_def)
  have "read_row h2 (VRef (length h)) = Some (JList bjs')"
    using row2 len2 rdb by (simp add: read_row_def read_list_def heap_get_def)
  then have first: "read_row h' (VRef (length h)) = Some (JList bjs')"
    using fresh_row_read [OF fr_row t2 Cons.prems(2)] by simp
  have run: "fill_keyboard h k (row # rows) = (Inr (), h')"
    using row r1 frow ap rest by (simp add: h1_def Let_def)
  have "fix_rows js = Some (Inr (JList bjs' # js'))"
    using fx fxr js jb by (simp add: fix_rows_Cons)
  moreover have "read_all (read_row h') (VRef (length h) # ys) = Some (JList bjs' # js')"
    using first rd by (simp add: read_all_Cons)
  ultimately show ?case
    using run at by (intro exI [where x = h'] exI [where x = "VRef (length h) # ys"]) auto
qed

lemma map_of_read_fields:
  "map_of (map (\<lambda>p. (fst p, f p)) d) k = map_option (\<lambda>v. f (k, v)) (map_of d k)"
  by (induction d) auto

lemma dict_set_read_fields:
  "map (\<lambda>p. (fst p, f p)) (dict_set k v d) = dict_set k (f (k, v)) (map (\<lambda>p. (fst p, f p)) d)"
  by (induction d) auto

lemma fix_reply_markup_heap_refines:
  assumes "read_markup h v = Some j"
  shows "\<exists>r h' j'. fix_reply_markup_heap h v = (Inr r, h') \<and>
           fix_reply_markup j = Some (Inr j') \<and> read_markup h' r = Some j'"
proof (cases v)
  case VNone
  then show ?thesis
    using assms
    by (auto simp: read_markup_def fix_reply_markup_heap_def truthy_at_def fix_reply_markup_def)
next
  case (VRef a)
  from assms VRef obtain d where a: "heap_get h a = Some (Dict_obj d)"
      and ok: "list_all (\<lambda>p. read_field h p \<noteq> None) d"
      and j: "j = JDict (map (\<lambda>p. (fst p, the (read_field h p))) d)"
    by (auto simp: read_markup_def split: option.splits obj.splits if_splits)
  define jd where "jd = map (\<lambda>p. (fst p, the (read_field h p))) d"
  have j': "j = JDict jd"
    by (simp add: j jd_def)
  have look: "map_of jd k = map_option (\<lambda>x. the (read_field h (k, x))) (map_of d k)" for k
    unfolding jd_def by (rule map_of_read_fields)
  show ?thesis
  proof (cases "d = [] \<or> map_of d ''inline_keyboard'' = None")
    case True
    then have "fix_reply_markup_heap h v = (Inr v, h)"
      using VRef a by (auto simp: fix_reply_markup_heap_def truthy_at_def)
    moreover have "jd = [] \<or> map_of jd ''inline_keyboard'' = None"
      using True look [of "''inline_keyboard''"] by (auto simp: jd_def)
    then have "fix_reply_markup j = Some (Inr j)"
      unfolding j' by (auto simp: fix_reply_markup_def py_in_def dict_has_def)
    ultimately show ?thesis
      using assms by auto
  next
    case False
    then obtain kv where kv: "map_of d ''inline_keyboard'' = Some kv" and ne: "d \<noteq> []"
      by auto
    then have "(''inline_keyboard'', kv) \<in> set d"
      by (auto dest: map_of_SomeD)
    with ok obtain kj where kj: "read_keyboard h kv = Some kj"
      by (auto simp: list_all_iff read_field_def)
    then obtain k rows rjs where k: "kv = VRef k" "heap_get h k = Some (List_obj rows)"
        "read_all (read_row h) rows = Some rjs" "kj = JList rjs"
      by (auto simp: read_keyboard_def read_list_def split: val.splits option.splits obj.splits)
    define h2 where "h2 = h @ [Dict_obj d, List_obj []]"
    have ext2: "extends h h2"
      by (auto simp: extends_def heap_get_def h2_def nth_append)
    have k2: "heap_get h2 k = Some (List_obj rows)"
      using ext2 k(2) by (rule extends_get)
    have pos: "Suc (length h) < length h2" "length h \<le> Suc (length h)"
        "h2 ! Suc (length h) = List_obj []"
      by (simp_all add: h2_def nth_append)
    from fill_keyboard_reads [OF ext2 pos k(3)] obtain h3 ys rjs' where
        fk: "fill_keyboard h2 (Suc (length h)) rows = (Inr (), h3)" and
        at: "h3 ! Suc (length h) = List_obj ys" and
        fx: "fix_rows rjs = Some (Inr rjs')" and
        rd: "read_all (read_row h3) ys = Some rjs'"
      by auto
    from fill_keyboard_spec [OF fk pos(1,3)] have
        t: "touches_only (Suc (length h)) h2 h3" and
        fresh: "list_all (fresh_row (length h2) h3) ys"
      using at by auto
    have top: "h3 ! length h = Dict_obj d" and len3: "length h2 \<le> length h3"
      using t by (auto simp: touches_only_def h2_def nth_append)
    define d' where "d' = dict_set ''inline_keyboard'' (VRef (Suc (length h))) d"
    define h4 where "h4 = h3[length h := Dict_obj d']"
    have sk: "set_key h3 (length h) ''inline_keyboard'' (VRef (Suc (length h))) = h4"
      using top len3 by (simp add: set_key_def heap_get_def h4_def h2_def d'_def)
    have run: "fix_reply_markup_heap h v = (Inr (VRef (length h)), h4)"
      using VRef a ne kv k(1) k2 fk sk
      by (simp add: fix_reply_markup_heap_def truthy_at_def Let_def h2_def)
    have t4: "touches_only (length h) h3 h4"
      by (simp add: touches_only_def h4_def)
    have ext4: "extends h h4"
      using ext2 t len3
      by (auto simp: extends_def heap_get_def touches_only_def h4_def h2_def nth_append
            nth_list_update)
    have "\<forall>y \<in> set ys. read_row h4 y = read_row h3 y"
      using fresh fresh_row_read [OF _ t4] by (auto simp: list_all_iff h2_def)
    then have "read_all (read_row h4) ys = read_all (read_row h3) ys"
      by (auto simp: read_all_def list_all_iff)
    then have newkb: "read_keyboard h4 (VRef (Suc (length h))) = Some (JList rjs')"
      using at rd len3
      by (simp add: read_keyboard_def read_list_def heap_get_def h4_def h2_def)
    have old: "read_field h4 p = read_field h p" if "p \<in> set d" for p
    proof -
      from ok that obtain x where x: "read_field h p = Some x"
        by (auto simp: list_all_iff)
      then have "read_field h4 p = Some x"
        using ext4 by (auto simp: read_field_def intro: read_keyboard_kept split: if_splits)
      with x show ?thesis by simp
    qed
    have set_d': "set d' \<subseteq> insert (''inline_keyboard'', VRef (Suc (length h))) (set d)"
      unfolding d'_def by (induction d) auto
    have new: "read_field h4 (''inline_keyboard'', VRef (Suc (length h))) = Some (JList rjs')"
      using newkb by (simp add: read_field_def)
    have all': "list_all (\<lambda>p. read_field h4 p \<noteq> None) d'"
      using set_d' ok old new by (auto simp: list_all_iff)
    have "map (\<lambda>p. (fst p, the (read_field h4 p))) d = jd"
      using old by (simp add: jd_def)
    then have fields: "map (\<lambda>p. (fst p, the (read_field h4 p))) d'
                         = dict_set ''inline_keyboard'' (JList rjs') jd"
      using new by (simp add: d'_def dict_set_read_fields)
    have top4: "heap_get h4 (length h) = Some (Dict_obj d')"
      using len3 by (simp add: heap_get_def h4_def h2_def)
    have readback: "read_markup h4 (VRef (length h))
                  = Some (JDict (dict_set ''inline_keyboard'' (JList rjs') jd))"
      using top4 all' fields by (simp add: read_markup_def)
    have jne: "jd \<noteq> []"
      using ne by (simp add: jd_def)
    have "map_of jd ''inline_keyboard'' = Some (JList rjs)"
      using look [of "''inline_keyboard''"] kv kj k(1,4) by (simp add: read_field_def)
    then have "fix_reply_markup j =
                 Some (Inr (JDict (dict_set ''inline_keyboard'' (JList rjs') jd)))"
      unfolding j' using fx by (rule fix_reply_markup_rows)
    with run readback show ?thesis by blast
  qed
qed (use assms in \<open>simp_all add: read_markup_def\<close>)

section \<open>Paging through images\<close>

lemma effective_index_bounds:
  "1 \<le> n \<Longrightarrow> 0 \<le> effective_index r n \<and> effective_index r n < n"
  by (auto simp: effective_index_def)

lemma seq_index_in_range:
  "0 \<le> i \<Longrightarrow> i < int (length xs) \<Longrightarrow> seq_index xs i = Inr (xs ! nat i)"
  by (simp add: seq_index_def Let_def)

lemma pagination_try_renders:
  assumes idx: "int_of rt current_index_str = Inr r"
    and hit: "BOT_STATE environ (''media:'' @ media_id) = Some data_str" "data_str \<noteq> []"
    and parsed: "loads rt data_str = Inr data"
    and imgs: "image_list_of data media_type lang = Inr (JList images)" "images \<noteq> []"
  shows "pagination_try rt tbot cb environ [tag, media_type, lang, current_index_str, media_id] =
           (let i = effective_index r (int (length images));
                media = photo (images ! nat i);
                options = view_options cb media_type lang i (int (length images)) media_id
            in case edit_message_media tbot media options of
                 Some e \<Rightarrow> (Inl e, [Edit_message_media media options])
               | None \<Rightarrow> (Inr (), [Edit_message_media media options,
                                   Answer_callback_query (cb_id cb) None]))"
proof -
  have n: "1 \<le> int (length images)"
    using imgs(2) by (cases images) auto
  have at: "py_index (JList images) (effective_index r (int (length images)))
              = Inr (images ! nat (effective_index r (int (length images))))"
    using effective_index_bounds [OF n, of r] by (simp add: py_index_def seq_index_in_range)
  show ?thesis
    using idx hit parsed imgs at
    by (simp add: pagination_try_def bind_exc_def py_len_def Let_def photo_def view_options_def)
qed

lemma int_of_samples:
  "int_of sample_runtime ''99'' = Inr 99" "int_of sample_runtime ''1'' = Inr 1"
  "int_of sample_runtime ''2'' = Inr 2" "int_of sample_runtime ''x'' = Inl ValueError"
  by (simp_all add: sample_runtime_def ascii_int_def strip_def is_space_def parse_digits_def
        is_digit_def digit_val_def)

lemma sample_images:
  "image_list_of sample_session ''posters'' ''en'' = Inr (JList [JStr ''u1'', JStr ''u2'', JStr ''u3''])"
  by (simp add: image_list_of_def sample_session_def py_get_def dict_get_def bind_exc_def)

text \<open>
  What \<^verbatim>\<open>handle_pagination\<close> asks of the bot. When the token has its five fields, the
  index field is read as \<open>r\<close>, and the cached session holds a list of \<open>N \<ge> 1\<close> images for
  the media type and language, the handler asks the bot to show the image at index
  \<open>max 0 (min r (N - 1))\<close>, which lies in \<open>[0, N - 1]\<close> whatever \<open>r\<close> is, and then answers the
  callback: plainly when the edit returned, with the error when it raised.
\<close>

lemma handle_pagination_clamps_index:
  assumes "int_of rt current_index_str = Inr r"
    and "BOT_STATE environ (''media:'' @ media_id) = Some data_str" "data_str \<noteq> []"
    and "loads rt data_str = Inr data"
    and "image_list_of data media_type lang = Inr (JList images)" "images \<noteq> []"
  shows "\<exists>i media options.
           i = max 0 (min r (int (length images) - 1)) \<and> 0 \<le> i \<and> i < int (length images) \<and>
           media = JDict [(''type'', JStr ''photo''), (''media'', images ! nat i)] \<and>
           options = message_options cb
                       [(''reply_markup'',
                         keyboard (image_view_buttons media_type lang i (int (length images))
                                     media_id))] \<and>
           handle_pagination rt tbot cb environ
               [tag, media_type, lang, current_index_str, media_id] =
             (None, [Edit_message_media media options,
                     Answer_callback_query (cb_id cb)
                       (map_option (error_alert rt) (edit_message_media tbot media options))])"
proof -
  have n: "1 \<le> int (length images)"
    using assms(6) by (cases images) auto
  show ?thesis
    using effective_index_bounds [OF n, of r]
    by (simp add: handle_pagination_def pagination_try_renders [OF assms] Let_def photo_def
          view_options_def effective_index_def split: option.splits)
qed

lemma handle_pagination_clamps_index_sample:
  "int_of sample_runtime ''99'' = Inr 99 \<and>
   BOT_STATE sample_env (''media:'' @ ''123'') = Some ''session-123'' \<and>
   loads sample_runtime ''session-123'' = Inr sample_session \<and>
   image_list_of sample_session ''posters'' ''en'' = Inr (JList [JStr ''u1'', JStr ''u2'', JStr ''u3'']) \<and>
   handle_pagination sample_runtime willing_bot (press ''nav:posters:en:99:123'') sample_env
       [''nav'', ''posters'', ''en'', ''99'', ''123''] =
     (None, [Edit_message_media (JDict [(''type'', JStr ''photo''), (''media'', JStr ''u3'')])
               (message_options (press ''nav:posters:en:99:123'')
                  [(''reply_markup'', keyboard (image_view_buttons ''posters'' ''en'' 2 3 ''123''))]),
             Answer_callback_query ''q1'' None])"
proof -
  have hit: "BOT_STATE sample_env (''media:'' @ ''123'') = Some ''session-123''"
    by (simp add: sample_env_def)
  have parsed: "loads sample_runtime ''session-123'' = Inr sample_session"
    by (simp add: sample_runtime_def)
  have nonempty: "''session-123'' \<noteq> []" "[JStr ''u1'', JStr ''u2'', JStr ''u3''] \<noteq> []"
    by simp_all
  show ?thesis
    using handle_pagination_clamps_index
            [OF int_of_samples(1) hit nonempty(1) parsed sample_images nonempty(2),
             where tbot = willing_bot and cb = "press ''nav:posters:en:99:123''" and tag = "''nav''"]
          int_of_samples(1) hit parsed sample_images
    by (simp add: willing_bot_def press_def)
qed






text \<open>Whatever the token, the cache and the bot, \<^verbatim>\<open>handle_pagination\<close> answers the
  callback exactly once and lets nothing escape.\<close>

lemma handle_pagination_answers_once:
  "fst (handle_pagination rt tbot cb environ parts) = None \<and>
   answer_count (snd (handle_pagination rt tbot cb environ parts)) = 1"
proof -
  obtain r calls where p: "pagination_try rt tbot cb environ parts = (r, calls)"
    by (cases "pagination_try rt tbot cb environ parts")
  have "(\<exists>e. r = Inl e \<and> answer_count calls = 0) \<or> (r = Inr () \<and> answer_count calls = 1)"
    using p
    by (auto simp: pagination_try_def answer_count_def Let_def
          split: list.splits sum.splits option.splits if_splits prod.splits)
  then show ?thesis
    by (auto simp: handle_pagination_def p answer_count_def)
qed

text \<open>On the class as telegram\_bot.py has it the edit raises, and paging ends in the error
  alert.\<close>

lemma paging_on_TelegramBot_as_is:
  assumes "int_of rt current_index_str = Inr r"
    and "BOT_STATE environ (''media:'' @ media_id) = Some data_str" "data_str \<noteq> []"
    and "loads rt data_str = Inr data"
    and "image_list_of data media_type lang = Inr (JList images)" "images \<noteq> []"
  shows "\<exists>media options.
           handle_pagination rt TelegramBot_as_is cb environ
               [tag, media_type, lang, current_index_str, media_id] =
             (None, [Edit_message_media media options,
                     Answer_callback_query (cb_id cb) (Some (error_alert rt AttributeError))])"
  by (simp add: handle_pagination_def pagination_try_renders [OF assms] Let_def
        TelegramBot_as_is_def)

text \<open>
  C1 fails on the code. The handler computes the clamped index and the keyboard and then
  calls \<^verbatim>\<open>bot.edit_message_media\<close>, a method that the class \<^verbatim>\<open>TelegramBot\<close> of
  telegram\_bot.py does not have: the lookup raises \<^verbatim>\<open>AttributeError\<close>, the \<^verbatim>\<open>except\<close>
  clause answers the callback with the error alert, and no image is shown. For the token
  \<^verbatim>\<open>nav:posters:en:99:123\<close> and a cached session with three posters, the edit the handler
  asks for is the one for the last poster, it raises, and the only call that goes through
  is the alert.
\<close>

theorem paging_shows_no_image:
  "handle_callback sample_runtime TelegramBot_as_is (press ''nav:posters:en:99:123'') sample_env =
     (None, [Edit_message_media (photo (JStr ''u3''))
               (view_options (press ''nav:posters:en:99:123'') ''posters'' ''en'' 2 3 ''123''),
             Answer_callback_query ''q1'' (Some (error_alert sample_runtime AttributeError))]) \<and>
   edit_message_media TelegramBot_as_is (photo (JStr ''u3''))
       (view_options (press ''nav:posters:en:99:123'') ''posters'' ''en'' 2 3 ''123'')
     = Some AttributeError \<and>
   filter (went_through TelegramBot_as_is)
       (snd (handle_callback sample_runtime TelegramBot_as_is (press ''nav:posters:en:99:123'')
               sample_env)) =
     [Answer_callback_query ''q1'' (Some (error_alert sample_runtime AttributeError))]"
proof -
  have parts: "callback_parts (press ''nav:posters:en:99:123'')
                 = [''nav'', ''posters'', ''en'', ''99'', ''123'']"
    by (simp add: callback_parts_def press_def)
  have hit: "BOT_STATE sample_env (''media:'' @ ''123'') = Some ''session-123''"
    by (simp add: sample_env_def)
  have parsed: "loads sample_runtime ''session-123'' = Inr sample_session"
    by (simp add: sample_runtime_def)
  have nonempty: "''session-123'' \<noteq> []" "[JStr ''u1'', JStr ''u2'', JStr ''u3''] \<noteq> []"
    by simp_all
  have i: "effective_index 99 3 = 2"
    by (simp add: effective_index_def)
  have paging: "handle_pagination sample_runtime TelegramBot_as_is (press ''nav:posters:en:99:123'')
                    sample_env [''nav'', ''posters'', ''en'', ''99'', ''123''] =
                  (None, [Edit_message_media (photo (JStr ''u3''))
                            (view_options (press ''nav:posters:en:99:123'') ''posters'' ''en'' 2 3
                               ''123''),
                          Answer_callback_query ''q1''
                            (Some (error_alert sample_runtime AttributeError))])"
    by (simp add: handle_pagination_def
          pagination_try_renders [OF int_of_samples(1) hit nonempty(1) parsed sample_images
                                    nonempty(2)]
          Let_def i TelegramBot_as_is_def press_def)
  have run: "handle_callback sample_runtime TelegramBot_as_is (press ''nav:posters:en:99:123'')
                 sample_env =
               handle_pagination sample_runtime TelegramBot_as_is (press ''nav:posters:en:99:123'')
                 sample_env [''nav'', ''posters'', ''en'', ''99'', ''123'']"
    using hit parsed by (simp add: handle_callback_def parts Let_def)
  show ?thesis
    unfolding run paging by (simp add: TelegramBot_as_is_def)
qed

section \<open>The callback handler\<close>

text \<open>\<^verbatim>\<open>split\<close> gives at least one field, so \<^verbatim>\<open>parts[0]\<close> and \<^verbatim>\<open>parts[-1]\<close> exist.\<close>

lemma split_on_not_empty: "split_on sep s \<noteq> []"
  by (induction s) (auto split: list.splits)

lemma callback_parts_not_empty: "callback_parts cb \<noteq> []"
  by (simp add: callback_parts_def split_on_not_empty)

text \<open>
  C4. For a token whose action is view, nav, details or back, when the cache has nothing
  under \<^verbatim>\<open>media:<media_id>\<close>, \<^verbatim>\<open>handle_callback\<close> makes one call, the answer with the
  session-expired alert, edits nothing and raises nothing. \<^verbatim>\<open>handle_pagination\<close> called
  on its own does the same once the token has parsed.
\<close>

theorem cache_miss_gives_expired_alert:
  "(hd (callback_parts cb) \<in> {''view'', ''nav'', ''details'', ''back''} \<and>
    BOT_STATE environ (''media:'' @ last (callback_parts cb)) = None
      \<longrightarrow> handle_callback rt tbot cb environ =
            (None, [Answer_callback_query (cb_id cb) (Some expired_alert)])) \<and>
   (int_of rt current_index_str = Inr r \<and> BOT_STATE environ (''media:'' @ media_id) = None
      \<longrightarrow> handle_pagination rt tbot cb environ
              [tag, media_type, lang, current_index_str, media_id] =
            (None, [Answer_callback_query (cb_id cb) (Some expired_alert)]))"
  by (auto simp: handle_callback_def handle_pagination_def pagination_try_def Let_def)

theorem cache_miss_gives_expired_alert_witness:
  "hd (callback_parts (press ''nav:posters:en:2:999'')) \<in> {''view'', ''nav'', ''details'', ''back''} \<and>
   BOT_STATE sample_env (''media:'' @ last (callback_parts (press ''nav:posters:en:2:999''))) = None \<and>
   handle_callback sample_runtime willing_bot (press ''nav:posters:en:2:999'') sample_env =
     (None, [Answer_callback_query ''q1'' (Some expired_alert)]) \<and>
   int_of sample_runtime ''2'' = Inr 2 \<and>
   handle_pagination sample_runtime willing_bot (press ''nav:posters:en:2:999'') sample_env
       [''nav'', ''posters'', ''en'', ''2'', ''999''] =
     (None, [Answer_callback_query ''q1'' (Some expired_alert)])"
proof -
  have a: "callback_parts (press ''nav:posters:en:2:999'') = [''nav'', ''posters'', ''en'', ''2'', ''999'']"
    by (simp add: callback_parts_def press_def)
  have b: "int_of sample_runtime ''2'' = Inr 2"
    by (rule int_of_samples)
  have c: "BOT_STATE sample_env ''media:999'' = None"
    by (simp add: sample_env_def)
  show ?thesis
    using cache_miss_gives_expired_alert
            [where cb = "press ''nav:posters:en:2:999''" and environ = sample_env
               and rt = sample_runtime and tbot = willing_bot and current_index_str = "''2''"
               and r = 2 and media_id = "''999''" and tag = "''nav''"
               and media_type = "''posters''" and lang = "''en''"]
          a b c
    by (simp add: press_def)
qed

text \<open>
  C8 fails on the code. The \<^verbatim>\<open>back\<close> branch has code for the destination \<^verbatim>\<open>main\<close>
  only: with the session cached, a \<^verbatim>\<open>back\<close> token for another destination is never
  answered. And on the class as telegram\_bot.py has it, the branches that edit the
  caption raise before they reach their answer.
\<close>

theorem back_elsewhere_is_not_answered:
  "handle_callback sample_runtime willing_bot (press ''back:menu:123'') sample_env = (None, []) \<and>
   answer_count (snd (handle_callback sample_runtime willing_bot (press ''back:menu:123'')
                        sample_env)) = 0 \<and>
   fst (handle_callback sample_runtime TelegramBot_as_is (press ''details:123'') sample_env)
     = Some AttributeError \<and>
   answer_count (snd (handle_callback sample_runtime TelegramBot_as_is (press ''details:123'')
                        sample_env)) = 0"
  by (simp add: handle_callback_def callback_parts_def press_def sample_env_def
        sample_runtime_def back_branch_def seq_index_def Let_def answer_count_def
        details_branch_def details_text_def sample_session_def edit_caption_and_answer_def
        TelegramBot_as_is_def)

text \<open>
  C9 fails on the code. Only \<^verbatim>\<open>handle_pagination\<close> has a \<^verbatim>\<open>try\<close>; the other branches of
  \<^verbatim>\<open>handle_callback\<close> read the fields of the token unguarded. With the session cached, the
  token \<^verbatim>\<open>back:123\<close>, which lacks its destination field, gets no alert and no answer at
  all; and a bare \<^verbatim>\<open>view\<close> whose own text is a cached media id raises \<^verbatim>\<open>IndexError\<close> out
  of the handler.
\<close>

theorem malformed_token_not_caught:
  "handle_callback sample_runtime willing_bot (press ''back:123'') sample_env = (None, []) \<and>
   handle_callback sample_runtime willing_bot (press ''view'') odd_env = (Some IndexError, [])"
  by (simp add: handle_callback_def callback_parts_def press_def sample_env_def odd_env_def
        sample_runtime_def back_branch_def view_branch_def seq_index_def Let_def)

text \<open>
  The sibling path does what the claim says. For a \<^verbatim>\<open>nav\<close> token whose session is cached
  and loads, a wrong number of fields raises \<^verbatim>\<open>ValueError\<close> in the unpacking and an index
  field that \<^verbatim>\<open>int\<close> refuses raises there, both inside the \<^verbatim>\<open>try\<close> of
  \<^verbatim>\<open>handle_pagination\<close>, which answers the callback with the alert carrying the error;
  that answer is the only call, and nothing escapes \<^verbatim>\<open>handle_callback\<close>.
\<close>

lemma pagination_try_malformed:
  assumes "length parts \<noteq> 5 \<and> e = ValueError \<or> length parts = 5 \<and> int_of rt (parts ! 3) = Inl e"
  shows "pagination_try rt tbot cb environ parts = (Inl e, [])"
proof (cases "length parts = 5")
  case True
  then obtain a b c d f where p: "parts = [a, b, c, d, f]"
    by (auto simp: length_Suc_conv eval_nat_numeral)
  with assms show ?thesis
    by (simp add: pagination_try_def)
next
  case False
  with assms show ?thesis
    by (auto simp: pagination_try_def split: list.splits)
qed

lemma malformed_nav_token_is_alerted:
  assumes "hd (callback_parts cb) = ''nav''"
    and "BOT_STATE environ (''media:'' @ last (callback_parts cb)) = Some data_str"
    and "data_str \<noteq> []"
    and "loads rt data_str = Inr data"
    and "length (callback_parts cb) \<noteq> 5 \<and> e = ValueError \<or>
         length (callback_parts cb) = 5 \<and> int_of rt (callback_parts cb ! 3) = Inl e"
  shows "handle_callback rt tbot cb environ =
           (None, [Answer_callback_query (cb_id cb) (Some (error_alert rt e))])"
  using assms(1-4)
  by (simp add: handle_callback_def Let_def handle_pagination_def
        pagination_try_malformed [OF assms(5)])

lemma malformed_nav_token_samples:
  "handle_callback sample_runtime willing_bot (press ''nav:posters:en:123'') sample_env =
     (None, [Answer_callback_query ''q1'' (Some (error_alert sample_runtime ValueError))])"
  "handle_callback sample_runtime willing_bot (press ''nav:posters:en:x:123'') sample_env =
     (None, [Answer_callback_query ''q1'' (Some (error_alert sample_runtime ValueError))])"
proof -
  have short: "callback_parts (press ''nav:posters:en:123'') = [''nav'', ''posters'', ''en'', ''123'']"
    by (simp add: callback_parts_def press_def)
  have odd: "callback_parts (press ''nav:posters:en:x:123'')
               = [''nav'', ''posters'', ''en'', ''x'', ''123'']"
    by (simp add: callback_parts_def press_def)
  have hit: "BOT_STATE sample_env (''media:'' @ ''123'') = Some ''session-123''"
    by (simp add: sample_env_def)
  have parsed: "loads sample_runtime ''session-123'' = Inr sample_session"
    by (simp add: sample_runtime_def)
  have id: "cb_id (press tok) = ''q1''" for tok
    by (simp add: press_def)
  have ne: "''session-123'' \<noteq> []"
    by simp
  show "handle_callback sample_runtime willing_bot (press ''nav:posters:en:123'') sample_env =
          (None, [Answer_callback_query ''q1'' (Some (error_alert sample_runtime ValueError))])"
    using malformed_nav_token_is_alerted
            [where cb = "press ''nav:posters:en:123''" and environ = sample_env
               and rt = sample_runtime and e = ValueError and tbot = willing_bot, OF _ _ ne parsed]
          hit
    by (simp add: short id)
  show "handle_callback sample_runtime willing_bot (press ''nav:posters:en:x:123'') sample_env =
          (None, [Answer_callback_query ''q1'' (Some (error_alert sample_runtime ValueError))])"
    using malformed_nav_token_is_alerted
            [where cb = "press ''nav:posters:en:x:123''" and environ = sample_env
               and rt = sample_runtime and e = ValueError and tbot = willing_bot, OF _ _ ne parsed]
          hit int_of_samples(4)
    by (simp add: odd id)
qed

section \<open>Dispatch\<close>

lemma run_handlers_append:
  "run_handlers (hs @ hs') tbot payload s =
     (case run_handlers hs tbot payload s of
        (Some e, s') \<Rightarrow> (Some e, s')
      | (None, s') \<Rightarrow> run_handlers hs' tbot payload s')"
  by (induction hs arbitrary: s) (auto split: prod.splits option.splits)

text \<open>
  C5, as the code has it. At most one branch runs. An update with a truthy \<^verbatim>\<open>message\<close>
  goes to the message handlers; otherwise one with a truthy \<^verbatim>\<open>callback_query\<close> goes to
  the callback handlers; an update with neither goes to no handler. The handlers of the
  branch run one after the other in the order of the list, each on the world the one
  before left, and a handler that raises ends the loop; the decorators append to the
  lists, so that order is the order of registration.
\<close>

theorem route_update_branches:
  "(carries ''message'' update \<longrightarrow>
      route_update d tbot update s =
        run_handlers (message_handlers d) tbot (dict_get update ''message'' JNull) s) \<and>
   (\<not> carries ''message'' update \<and> carries ''callback_query'' update \<longrightarrow>
      route_update d tbot update s =
        run_handlers (callback_query_handlers d) tbot (dict_get update ''callback_query'' JNull) s) \<and>
   (\<not> carries ''message'' update \<and> \<not> carries ''callback_query'' update \<longrightarrow>
      route_update d tbot update s = (None, s)) \<and>
   run_handlers [] tbot payload s = (None, s) \<and>
   run_handlers (handlers @ [handler]) tbot payload s =
     (case run_handlers handlers tbot payload s of
        (Some e, s') \<Rightarrow> (Some e, s')
      | (None, s') \<Rightarrow> handler tbot payload s') \<and>
   message_handlers (on_message d func) = message_handlers d @ [func] \<and>
   callback_query_handlers (on_message d func) = callback_query_handlers d \<and>
   callback_query_handlers (on_callback_query d func) = callback_query_handlers d @ [func] \<and>
   message_handlers (on_callback_query d func) = message_handlers d \<and>
   message_handlers (Dispatcher :: ('b, 's) dispatcher) = [] \<and>
   callback_query_handlers (Dispatcher :: ('b, 's) dispatcher) = []"
proof -
  have "run_handlers [handler] tbot payload s' = handler tbot payload s'" for s'
    by (auto split: prod.splits option.splits)
  then show ?thesis
    by (auto simp: route_update_def run_handlers_append on_message_def on_callback_query_def
          Dispatcher_def split: prod.splits option.splits)
qed

theorem route_update_branches_witness:
  "carries ''message'' message_update \<and>
   message_handlers sample_dispatcher = [log_handler ''first'', log_handler ''second''] \<and>
   route_update sample_dispatcher () message_update [] = (None, [''first'', ''second''])"
proof -
  have c: "carries ''message'' message_update"
    by (simp add: carries_def dict_has_def dict_get_def message_update_def)
  have hs: "message_handlers sample_dispatcher = [log_handler ''first'', log_handler ''second'']"
    by (simp add: sample_dispatcher_def on_message_def on_callback_query_def Dispatcher_def)
  show ?thesis
    using route_update_branches [of message_update sample_dispatcher "()" "[]", THEN conjunct1] c hs
    by (simp add: log_handler_def message_update_def dict_get_def)
qed

text \<open>
  C5 as stated fails: for an update that carries neither payload, such as an edited
  message, neither branch fires and no handler runs.
\<close>

theorem route_update_without_payload:
  "\<not> carries ''message'' edited_message_update \<and>
   \<not> carries ''callback_query'' edited_message_update \<and>
   message_handlers sample_dispatcher \<noteq> [] \<and>
   callback_query_handlers sample_dispatcher \<noteq> [] \<and>
   route_update sample_dispatcher () edited_message_update [] = (None, [])"
  by (simp add: route_update_def carries_def dict_has_def edited_message_update_def
        sample_dispatcher_def on_message_def on_callback_query_def Dispatcher_def)

end
